theory Spec2Isabelle
  imports Main "HOL-Library.Word"
begin

section \<open>Strings of the C++ standard library\<close>

text \<open>
  A \<^verbatim>\<open>std::string\<close> is a sequence of bytes: a \<^typ>\<open>string\<close>. The server only
  concatenates strings, searches them with \<^verbatim>\<open>find\<close> and prints integers with
  \<^verbatim>\<open>std::to_string\<close>.
\<close>

fun starts_with :: "string \<Rightarrow> string \<Rightarrow> bool" where
  "starts_with [] s = True"
| "starts_with (a # as) [] = False"
| "starts_with (a # as) (b # bs) = (a = b \<and> starts_with as bs)"

text \<open>
  \<^verbatim>\<open>s.find(needle)\<close>: the position of the first occurrence of the needle, searched
  from position 0; \<^verbatim>\<open>npos\<close> is \<^term>\<open>None\<close>.
\<close>

fun str_find :: "string \<Rightarrow> string \<Rightarrow> nat option" where
  "str_find needle [] = (if needle = [] then Some 0 else None)"
| "str_find needle (c # s) =
     (if starts_with needle (c # s) then Some 0 else map_option Suc (str_find needle s))"

text \<open>
  The C++ \<^verbatim>\<open>int\<close> of the platform is a 32-bit two's complement integer, read with
  \<^const>\<open>sint\<close>. Addition on the type wraps around: C++ leaves the overflow of
  \<^verbatim>\<open>int\<close> addition undefined, and the only addition of the server, \<^verbatim>\<open>port + 1\<close>,
  overflows for no port but the largest \<^verbatim>\<open>int\<close>. \<^verbatim>\<open>std::to_string(int)\<close> prints
  the integer in decimal, with a minus sign when it is negative.
\<close>

type_synonym cint = "32 word"

fun digits :: "nat \<Rightarrow> string" where
  "digits n = (if n < 10 then [''0123456789'' ! n]
               else digits (n div 10) @ [''0123456789'' ! (n mod 10)])"

declare digits.simps [simp del]

definition dec :: "int \<Rightarrow> string" where
  "dec i = (if i < 0 then CHR ''-'' # digits (nat (- i)) else digits (nat i))"

definition to_string :: "cint \<Rightarrow> string" where
  "to_string v = dec (sint v)"

section \<open>The server object\<close>

record MediaProfile =
  token :: string
  name :: string
  video_encoder_token :: string
  audio_encoder_token :: string
  width :: cint
  height :: cint
  framerate :: cint
  bitrate :: cint

text \<open>
  The fields of \<^verbatim>\<open>class OnvifServer\<close>. The socket descriptor and the mutex belong to
  the accept loop (\<^verbatim>\<open>start\<close>, \<^verbatim>\<open>run\<close>, \<^verbatim>\<open>stop\<close>); no request handler reads or
  writes them, and the constructor leaves the descriptor uninitialised, so they are
  left out of the record.
\<close>

record OnvifServer =
  port :: cint
  device_uuid :: string
  device_name :: string
  manufacturer :: string
  model :: string
  serial_number :: string
  firmware_version :: string
  media_profiles :: "MediaProfile list"
  running :: bool

definition initializeMediaProfiles :: "OnvifServer \<Rightarrow> OnvifServer" where
  "initializeMediaProfiles st =
     (let profile1 = \<lparr>token = ''Profile_1'', name = ''MainStream'',
                       video_encoder_token = ''VideoEncoder_1'',
                       audio_encoder_token = ''AudioEncoder_1'',
                       width = 1920, height = 1080, framerate = 30, bitrate = 4000000\<rparr>;
          profile2 = \<lparr>token = ''Profile_2'', name = ''SubStream'',
                       video_encoder_token = ''VideoEncoder_2'',
                       audio_encoder_token = ''AudioEncoder_2'',
                       width = 640, height = 480, framerate = 15, bitrate = 1000000\<rparr>;
          st1 = st\<lparr>media_profiles := media_profiles st @ [profile1]\<rparr>
      in st1\<lparr>media_profiles := media_profiles st1 @ [profile2]\<rparr>)"

text \<open>The constructor \<^verbatim>\<open>OnvifServer(int port)\<close>; the vector starts empty.\<close>

definition OnvifServer_new :: "cint \<Rightarrow> OnvifServer" where
  "OnvifServer_new p =
     initializeMediaProfiles
       \<lparr>port = p,
        device_uuid = ''urn:uuid:12345678-1234-1234-1234-123456789012'',
        device_name = ''ONVIF Camera'',
        manufacturer = ''Sample Manufacturer'',
        model = ''Sample Model'',
        serial_number = ''123456789'',
        firmware_version = ''1.0.0'',
        media_profiles = [],
        running = False\<rparr>"

section \<open>The clock\<close>

text \<open>
  \<^verbatim>\<open>getCurrentTime\<close> samples \<^verbatim>\<open>system_clock::now()\<close> and prints it with
  \<^verbatim>\<open>put_time(gmtime(..), "%Y-%m-%dT%H:%M:%SZ")\<close>. Both belong to the C++ runtime:
  what they yield at the moment of a call, the text of the current UTC time, is the
  argument \<open>clock\<close> of the model.
\<close>

definition getCurrentTime :: "string \<Rightarrow> string" where
  "getCurrentTime clock = clock"

section \<open>The envelope and the response builders\<close>

definition generateSoapEnvelope :: "string \<Rightarrow> string" where
  \<open>generateSoapEnvelope body =
     ''<?xml version="1.0" encoding="UTF-8"?>\<newline>'' @
     ''<SOAP-ENV:Envelope xmlns:SOAP-ENV="http://www.w3.org/2003/05/soap-envelope" '' @
     ''xmlns:tds="http://www.onvif.org/ver10/device/wsdl" '' @
     ''xmlns:trt="http://www.onvif.org/ver10/media/wsdl" '' @
     ''xmlns:tptz="http://www.onvif.org/ver20/ptz/wsdl">\<newline>'' @
     ''<SOAP-ENV:Body>\<newline>'' @ body @ ''</SOAP-ENV:Body>\<newline>'' @
     ''</SOAP-ENV:Envelope>''\<close>

text \<open>
  Every handler is a member function of the server object: it takes the object and
  returns its result together with the object as it leaves it.
\<close>

definition handleGetDeviceInformation :: "OnvifServer \<Rightarrow> string \<times> OnvifServer" where
  \<open>handleGetDeviceInformation st =
     (let body =
        ''<tds:GetDeviceInformationResponse>\<newline>'' @
        ''<tds:Manufacturer>'' @ manufacturer st @ ''</tds:Manufacturer>\<newline>'' @
        ''<tds:Model>'' @ model st @ ''</tds:Model>\<newline>'' @
        ''<tds:FirmwareVersion>'' @ firmware_version st @ ''</tds:FirmwareVersion>\<newline>'' @
        ''<tds:SerialNumber>'' @ serial_number st @ ''</tds:SerialNumber>\<newline>'' @
        ''<tds:HardwareId>'' @ device_uuid st @ ''</tds:HardwareId>\<newline>'' @
        ''</tds:GetDeviceInformationResponse>''
      in (generateSoapEnvelope body, st))\<close>

definition handleGetCapabilities :: "OnvifServer \<Rightarrow> string \<times> OnvifServer" where
  \<open>handleGetCapabilities st =
     (let body =
        ''<tds:GetCapabilitiesResponse>\<newline>'' @
        ''<tds:Capabilities>\<newline>'' @
        ''<tds:Device>\<newline>'' @
        ''<tds:XAddr>http://localhost:'' @ to_string (port st) @ ''/onvif/device_service</tds:XAddr>\<newline>'' @
        ''<tds:Network>\<newline>'' @
        ''<tds:IPFilter>false</tds:IPFilter>\<newline>'' @
        ''<tds:ZeroConfiguration>false</tds:ZeroConfiguration>\<newline>'' @
        ''<tds:IPVersion6>false</tds:IPVersion6>\<newline>'' @
        ''<tds:DynDNS>false</tds:DynDNS>\<newline>'' @
        ''</tds:Network>\<newline>'' @
        ''<tds:System>\<newline>'' @
        ''<tds:DiscoveryResolve>false</tds:DiscoveryResolve>\<newline>'' @
        ''<tds:DiscoveryBye>false</tds:DiscoveryBye>\<newline>'' @
        ''<tds:RemoteDiscovery>false</tds:RemoteDiscovery>\<newline>'' @
        ''<tds:SystemBackup>false</tds:SystemBackup>\<newline>'' @
        ''<tds:SystemLogging>false</tds:SystemLogging>\<newline>'' @
        ''<tds:FirmwareUpgrade>false</tds:FirmwareUpgrade>\<newline>'' @
        ''</tds:System>\<newline>'' @
        ''<tds:IO>\<newline>'' @
        ''<tds:InputConnectors>0</tds:InputConnectors>\<newline>'' @
        ''<tds:RelayOutputs>0</tds:RelayOutputs>\<newline>'' @
        ''</tds:IO>\<newline>'' @
        ''<tds:Security>\<newline>'' @
        ''<tds:TLS1.1>false</tds:TLS1.1>\<newline>'' @
        ''<tds:TLS1.2>true</tds:TLS1.2>\<newline>'' @
        ''<tds:OnboardKeyGeneration>false</tds:OnboardKeyGeneration>\<newline>'' @
        ''<tds:AccessPolicyConfig>false</tds:AccessPolicyConfig>\<newline>'' @
        ''<tds:X.509Token>false</tds:X.509Token>\<newline>'' @
        ''<tds:SAMLToken>false</tds:SAMLToken>\<newline>'' @
        ''<tds:KerberosToken>false</tds:KerberosToken>\<newline>'' @
        ''<tds:RELToken>false</tds:RELToken>\<newline>'' @
        ''</tds:Security>\<newline>'' @
        ''</tds:Device>\<newline>'' @
        ''<tds:Media>\<newline>'' @
        ''<tds:XAddr>http://localhost:'' @ to_string (port st) @ ''/onvif/media_service</tds:XAddr>\<newline>'' @
        ''<tds:StreamingCapabilities>\<newline>'' @
        ''<tds:RTPMulticast>false</tds:RTPMulticast>\<newline>'' @
        ''<tds:RTP_TCP>true</tds:RTP_TCP>\<newline>'' @
        ''<tds:RTP_RTSP_TCP>true</tds:RTP_RTSP_TCP>\<newline>'' @
        ''</tds:StreamingCapabilities>\<newline>'' @
        ''</tds:Media>\<newline>'' @
        ''<tds:PTZ>\<newline>'' @
        ''<tds:XAddr>http://localhost:'' @ to_string (port st) @ ''/onvif/ptz_service</tds:XAddr>\<newline>'' @
        ''</tds:PTZ>\<newline>'' @
        ''</tds:Capabilities>\<newline>'' @
        ''</tds:GetCapabilitiesResponse>''
      in (generateSoapEnvelope body, st))\<close>

text \<open>What one iteration of the loop of \<^verbatim>\<open>handleGetProfiles\<close> appends.\<close>

definition profile_xml :: "MediaProfile \<Rightarrow> string" where
  \<open>profile_xml profile =
        ''<trt:Profiles token="'' @ token profile @ ''" fixed="true">\<newline>'' @
        ''<trt:Name>'' @ name profile @ ''</trt:Name>\<newline>'' @
        ''<trt:VideoSourceConfiguration token="VideoSource_1" fixed="true">\<newline>'' @
        ''<trt:Name>VideoSourceConfig</trt:Name>\<newline>'' @
        ''<trt:UseCount>2</trt:UseCount>\<newline>'' @
        ''<trt:SourceToken>VideoSource_1</trt:SourceToken>\<newline>'' @
        ''<trt:Bounds x="0" y="0" width="'' @ to_string (width profile) @ ''" height="'' @ to_string (height profile) @ ''"/>\<newline>'' @
        ''</trt:VideoSourceConfiguration>\<newline>'' @
        ''<trt:VideoEncoderConfiguration token="'' @ video_encoder_token profile @ ''" fixed="true">\<newline>'' @
        ''<trt:Name>VideoEncoderConfig</trt:Name>\<newline>'' @
        ''<trt:UseCount>1</trt:UseCount>\<newline>'' @
        ''<trt:Encoding>H264</trt:Encoding>\<newline>'' @
        ''<trt:Resolution>\<newline>'' @
        ''<trt:Width>'' @ to_string (width profile) @ ''</trt:Width>\<newline>'' @
        ''<trt:Height>'' @ to_string (height profile) @ ''</trt:Height>\<newline>'' @
        ''</trt:Resolution>\<newline>'' @
        ''<trt:Quality>1</trt:Quality>\<newline>'' @
        ''<trt:RateControl>\<newline>'' @
        ''<trt:FrameRateLimit>'' @ to_string (framerate profile) @ ''</trt:FrameRateLimit>\<newline>'' @
        ''<trt:EncodingInterval>1</trt:EncodingInterval>\<newline>'' @
        ''<trt:BitrateLimit>'' @ to_string (bitrate profile) @ ''</trt:BitrateLimit>\<newline>'' @
        ''</trt:RateControl>\<newline>'' @
        ''<trt:H264>\<newline>'' @
        ''<trt:GovLength>30</trt:GovLength>\<newline>'' @
        ''<trt:H264Profile>Baseline</trt:H264Profile>\<newline>'' @
        ''</trt:H264>\<newline>'' @
        ''</trt:VideoEncoderConfiguration>\<newline>'' @
        ''</trt:Profiles>\<newline>''\<close>

fun handleGetProfiles_loop :: "MediaProfile list \<Rightarrow> string \<Rightarrow> string" where
  "handleGetProfiles_loop [] profiles_xml = profiles_xml"
| "handleGetProfiles_loop (profile # rest) profiles_xml =
     handleGetProfiles_loop rest (profiles_xml @ profile_xml profile)"

definition handleGetProfiles :: "OnvifServer \<Rightarrow> string \<times> OnvifServer" where
  \<open>handleGetProfiles st =
     (let profiles_xml = handleGetProfiles_loop (media_profiles st) [];
          body = ''<trt:GetProfilesResponse>\<newline>'' @ profiles_xml @ ''</trt:GetProfilesResponse>''
      in (generateSoapEnvelope body, st))\<close>

definition handleGetStreamUri :: "OnvifServer \<Rightarrow> string \<times> OnvifServer" where
  \<open>handleGetStreamUri st =
     (let body =
        ''<trt:GetStreamUriResponse>\<newline>'' @
        ''<trt:MediaUri>\<newline>'' @
        ''<trt:Uri>rtsp://localhost:'' @ to_string (port st + 1) @ ''/stream1</trt:Uri>\<newline>'' @
        ''<trt:InvalidAfterConnect>false</trt:InvalidAfterConnect>\<newline>'' @
        ''<trt:InvalidAfterReboot>false</trt:InvalidAfterReboot>\<newline>'' @
        ''<trt:Timeout>PT60S</trt:Timeout>\<newline>'' @
        ''</trt:MediaUri>\<newline>'' @
        ''</trt:GetStreamUriResponse>''
      in (generateSoapEnvelope body, st))\<close>

definition handleGetSystemDateAndTime :: "string \<Rightarrow> OnvifServer \<Rightarrow> string \<times> OnvifServer" where
  \<open>handleGetSystemDateAndTime clock st =
     (let current_time = getCurrentTime clock;
          body =
        ''<tds:GetSystemDateAndTimeResponse>\<newline>'' @
        ''<tds:SystemDateAndTime>\<newline>'' @
        ''<tds:DateTimeType>Manual</tds:DateTimeType>\<newline>'' @
        ''<tds:DaylightSavings>false</tds:DaylightSavings>\<newline>'' @
        ''<tds:TimeZone>\<newline>'' @
        ''<tds:TZ>UTC</tds:TZ>\<newline>'' @
        ''</tds:TimeZone>\<newline>'' @
        ''<tds:UTCDateTime>\<newline>'' @
        ''<tds:Time>\<newline>'' @
        ''<tds:Hour>12</tds:Hour>\<newline>'' @
        ''<tds:Minute>0</tds:Minute>\<newline>'' @
        ''<tds:Second>0</tds:Second>\<newline>'' @
        ''</tds:Time>\<newline>'' @
        ''<tds:Date>\<newline>'' @
        ''<tds:Year>2024</tds:Year>\<newline>'' @
        ''<tds:Month>1</tds:Month>\<newline>'' @
        ''<tds:Day>1</tds:Day>\<newline>'' @
        ''</tds:Date>\<newline>'' @
        ''</tds:UTCDateTime>\<newline>'' @
        ''</tds:SystemDateAndTime>\<newline>'' @
        ''</tds:GetSystemDateAndTimeResponse>''
      in (generateSoapEnvelope body, st))\<close>

definition handlePTZGetConfigurations :: "OnvifServer \<Rightarrow> string \<times> OnvifServer" where
  \<open>handlePTZGetConfigurations st =
     (let body =
        ''<tptz:GetConfigurationsResponse>\<newline>'' @
        ''<tptz:PTZConfiguration token="PTZConfig_1">\<newline>'' @
        ''<tptz:Name>PTZ Configuration</tptz:Name>\<newline>'' @
        ''<tptz:UseCount>1</tptz:UseCount>\<newline>'' @
        ''<tptz:NodeToken>PTZNode_1</tptz:NodeToken>\<newline>'' @
        ''<tptz:DefaultAbsolutePantTiltPositionSpace>http://www.onvif.org/ver10/tptz/PanTiltSpaces/PositionGenericSpace</tptz:DefaultAbsolutePantTiltPositionSpace>\<newline>'' @
        ''<tptz:DefaultAbsoluteZoomPositionSpace>http://www.onvif.org/ver10/tptz/ZoomSpaces/PositionGenericSpace</tptz:DefaultAbsoluteZoomPositionSpace>\<newline>'' @
        ''<tptz:DefaultRelativePanTiltTranslationSpace>http://www.onvif.org/ver10/tptz/PanTiltSpaces/TranslationGenericSpace</tptz:DefaultRelativePanTiltTranslationSpace>\<newline>'' @
        ''<tptz:DefaultRelativeZoomTranslationSpace>http://www.onvif.org/ver10/tptz/ZoomSpaces/TranslationGenericSpace</tptz:DefaultRelativeZoomTranslationSpace>\<newline>'' @
        ''<tptz:DefaultContinuousPanTiltVelocitySpace>http://www.onvif.org/ver10/tptz/PanTiltSpaces/VelocityGenericSpace</tptz:DefaultContinuousPanTiltVelocitySpace>\<newline>'' @
        ''<tptz:DefaultContinuousZoomVelocitySpace>http://www.onvif.org/ver10/tptz/ZoomSpaces/VelocityGenericSpace</tptz:DefaultContinuousZoomVelocitySpace>\<newline>'' @
        ''<tptz:DefaultPTZSpeed>\<newline>'' @
        ''<tptz:PanTilt x="1.0" y="1.0" space="http://www.onvif.org/ver10/tptz/PanTiltSpaces/GenericSpeedSpace"/>\<newline>'' @
        ''<tptz:Zoom x="1.0" space="http://www.onvif.org/ver10/tptz/ZoomSpaces/ZoomGenericSpeedSpace"/>\<newline>'' @
        ''</tptz:DefaultPTZSpeed>\<newline>'' @
        ''<tptz:DefaultPTZTimeout>PT5S</tptz:DefaultPTZTimeout>\<newline>'' @
        ''<tptz:PanTiltLimits>\<newline>'' @
        ''<tptz:Range>\<newline>'' @
        ''<tptz:URI>http://www.onvif.org/ver10/tptz/PanTiltSpaces/PositionGenericSpace</tptz:URI>\<newline>'' @
        ''<tptz:XRange>\<newline>'' @
        ''<tptz:Min>-1.0</tptz:Min>\<newline>'' @
        ''<tptz:Max>1.0</tptz:Max>\<newline>'' @
        ''</tptz:XRange>\<newline>'' @
        ''<tptz:YRange>\<newline>'' @
        ''<tptz:Min>-1.0</tptz:Min>\<newline>'' @
        ''<tptz:Max>1.0</tptz:Max>\<newline>'' @
        ''</tptz:YRange>\<newline>'' @
        ''</tptz:Range>\<newline>'' @
        ''</tptz:PanTiltLimits>\<newline>'' @
        ''<tptz:ZoomLimits>\<newline>'' @
        ''<tptz:Range>\<newline>'' @
        ''<tptz:URI>http://www.onvif.org/ver10/tptz/ZoomSpaces/PositionGenericSpace</tptz:URI>\<newline>'' @
        ''<tptz:XRange>\<newline>'' @
        ''<tptz:Min>0.0</tptz:Min>\<newline>'' @
        ''<tptz:Max>1.0</tptz:Max>\<newline>'' @
        ''</tptz:XRange>\<newline>'' @
        ''</tptz:Range>\<newline>'' @
        ''</tptz:ZoomLimits>\<newline>'' @
        ''</tptz:PTZConfiguration>\<newline>'' @
        ''</tptz:GetConfigurationsResponse>''
      in (generateSoapEnvelope body, st))\<close>

section \<open>The dispatcher\<close>

definition processRequest :: "string \<Rightarrow> OnvifServer \<Rightarrow> string \<Rightarrow> string \<times> OnvifServer" where
  \<open>processRequest clock st request =
     (if str_find ''GetDeviceInformation'' request \<noteq> None then
        handleGetDeviceInformation st
      else if str_find ''GetCapabilities'' request \<noteq> None then
        handleGetCapabilities st
      else if str_find ''GetProfiles'' request \<noteq> None then
        handleGetProfiles st
      else if str_find ''GetStreamUri'' request \<noteq> None then
        handleGetStreamUri st
      else if str_find ''GetSystemDateAndTime'' request \<noteq> None then
        handleGetSystemDateAndTime clock st
      else if str_find ''GetConfigurations'' request \<noteq> None then
        handlePTZGetConfigurations st
      else
        (let body =
           ''<SOAP-ENV:Fault>\<newline>'' @
           ''<SOAP-ENV:Code>\<newline>'' @
           ''<SOAP-ENV:Value>SOAP-ENV:Receiver</SOAP-ENV:Value>\<newline>'' @
           ''</SOAP-ENV:Code>\<newline>'' @
           ''<SOAP-ENV:Reason>\<newline>'' @
           ''<SOAP-ENV:Text>Method not implemented</SOAP-ENV:Text>\<newline>'' @
           ''</SOAP-ENV:Reason>\<newline>'' @
           ''</SOAP-ENV:Fault>''
         in (generateSoapEnvelope body, st)))\<close>

text \<open>
  The branch that \<^const>\<open>processRequest\<close> takes, as a value: the conditions of its
  \<^verbatim>\<open>if\<close> chain, in the same order.
\<close>

datatype Operation =
  GetDeviceInformation | GetCapabilities | GetProfiles | GetStreamUri
| GetSystemDateAndTime | PTZGetConfigurations | Unrecognized

definition classify :: "string \<Rightarrow> Operation" where
  "classify request =
     (if str_find ''GetDeviceInformation'' request \<noteq> None then GetDeviceInformation
      else if str_find ''GetCapabilities'' request \<noteq> None then GetCapabilities
      else if str_find ''GetProfiles'' request \<noteq> None then GetProfiles
      else if str_find ''GetStreamUri'' request \<noteq> None then GetStreamUri
      else if str_find ''GetSystemDateAndTime'' request \<noteq> None then GetSystemDateAndTime
      else if str_find ''GetConfigurations'' request \<noteq> None then PTZGetConfigurations
      else Unrecognized)"

section \<open>The life of the server object\<close>

text \<open>
  \<^verbatim>\<open>start\<close> opens, binds and listens on the socket; whether the three calls succeed
  is the argument \<open>ok\<close>. When they do it sets \<^verbatim>\<open>running\<close> and returns true,
  otherwise it returns false. \<^verbatim>\<open>stop\<close> clears \<^verbatim>\<open>running\<close> and closes the socket.
  \<^verbatim>\<open>run\<close> and \<^verbatim>\<open>handleClient\<close> hand every request they read to
  \<^const>\<open>processRequest\<close> and write nothing to the object themselves.
\<close>

definition start :: "bool \<Rightarrow> OnvifServer \<Rightarrow> bool \<times> OnvifServer" where
  "start ok st = (if ok then (True, st\<lparr>running := True\<rparr>) else (False, st))"

definition stop :: "OnvifServer \<Rightarrow> OnvifServer" where
  "stop st = st\<lparr>running := False\<rparr>"

text \<open>
  The states the server object can be in: the constructed one, and those that starting,
  stopping and answering any number of requests lead to.
\<close>

inductive reachable :: "cint \<Rightarrow> OnvifServer \<Rightarrow> bool" for p :: cint where
  reachable_new: "reachable p (OnvifServer_new p)"
| reachable_start: "reachable p st \<Longrightarrow> reachable p (snd (start ok st))"
| reachable_stop: "reachable p st \<Longrightarrow> reachable p (stop st)"
| reachable_step:
    "reachable p st \<Longrightarrow> reachable p (snd (processRequest clock st request))"

section \<open>Reading a response\<close>

text \<open>
  What a client sees in a response is stated with a few functions on its text. They
  are not part of the server.

  \<^item> \<open>count_occ needle s\<close>: at how many positions \<open>needle\<close> occurs in \<open>s\<close>;
  \<^item> \<open>after_first needle s\<close>: the text after the first occurrence of \<open>needle\<close>;
  \<^item> \<open>before_first needle s\<close>: the text before the first occurrence of \<open>needle\<close>;
  \<^item> \<open>element_text tag s\<close>: the content of the first element \<open><tag>...</tag>\<close>;
  \<^item> \<open>xml_path tags s\<close>: the content reached by descending through nested elements;
  \<^item> \<open>profiles_tokens s\<close>: the \<open>token\<close> attribute of every \<open>trt:Profiles\<close> start
    tag of \<open>s\<close>, in the order of the text;
  \<^item> \<open>root_start_tag s\<close>: the start tag that follows the XML declaration, without
    its closing bracket, and \<open>xmlns_prefixes\<close>: the prefixes it declares;
  \<^item> \<open>denotes d i\<close>: the text \<open>d\<close> is the decimal numeral of the integer \<open>i\<close>:
    digits only after an optional minus sign, no leading zero, no minus zero, and the
    value that reading the digits from the left gives (\<open>numeral_value\<close>) is \<open>i\<close>.
\<close>

fun count_occ :: "string \<Rightarrow> string \<Rightarrow> nat" where
  "count_occ needle [] = 0"
| "count_occ needle (c # s) =
     (if starts_with needle (c # s) then 1 else 0) + count_occ needle s"

fun after_first :: "string \<Rightarrow> string \<Rightarrow> string option" where
  "after_first needle [] = (if needle = [] then Some [] else None)"
| "after_first needle (c # s) =
     (if starts_with needle (c # s) then Some (drop (length needle) (c # s))
      else after_first needle s)"

fun before_first :: "string \<Rightarrow> string \<Rightarrow> string option" where
  "before_first needle [] = (if needle = [] then Some [] else None)"
| "before_first needle (c # s) =
     (if starts_with needle (c # s) then Some []
      else map_option ((#) c) (before_first needle s))"

definition element_text :: "string \<Rightarrow> string \<Rightarrow> string option" where
  "element_text tag s =
     (case after_first (''<'' @ tag @ ''>'') s of
        None \<Rightarrow> None
      | Some r \<Rightarrow> before_first (''</'' @ tag @ ''>'') r)"

fun xml_path :: "string list \<Rightarrow> string \<Rightarrow> string option" where
  "xml_path [] s = Some s"
| "xml_path (tag # tags) s =
     (case element_text tag s of None \<Rightarrow> None | Some inner \<Rightarrow> xml_path tags inner)"

fun profiles_tokens :: "string \<Rightarrow> string list" where
  \<open>profiles_tokens [] = []\<close>
| \<open>profiles_tokens (c # s) =
     (if starts_with ''<trt:Profiles token="'' (c # s)
      then takeWhile (\<lambda>x. x \<noteq> CHR 0x22) (drop 21 (c # s)) # profiles_tokens s
      else profiles_tokens s)\<close>

definition root_start_tag :: "string \<Rightarrow> string option" where
  "root_start_tag s =
     (case after_first ''?>\<newline>'' s of
        None \<Rightarrow> None
      | Some r \<Rightarrow> before_first ''>'' r)"

fun xmlns_prefixes :: "string \<Rightarrow> string list" where
  "xmlns_prefixes [] = []"
| "xmlns_prefixes (c # s) =
     (if starts_with ''xmlns:'' (c # s)
      then takeWhile (\<lambda>x. x \<noteq> CHR ''='') (drop 6 (c # s)) # xmlns_prefixes s
      else xmlns_prefixes s)"

definition numeral_value :: "string \<Rightarrow> nat" where
  "numeral_value d = foldl (\<lambda>acc c. 10 * acc + (of_char c - 48)) 0 d"

definition is_numeral :: "string \<Rightarrow> bool" where
  "is_numeral d \<longleftrightarrow>
     d \<noteq> [] \<and> list_all (\<lambda>c. c \<in> set ''0123456789'') d \<and> (hd d = CHR ''0'' \<longrightarrow> d = ''0'')"

definition denotes :: "string \<Rightarrow> int \<Rightarrow> bool" where
  "denotes d i =
     (case d of
        [] \<Rightarrow> False
      | c # r \<Rightarrow>
          if c = CHR ''-'' then is_numeral r \<and> r \<noteq> ''0'' \<and> i = - int (numeral_value r)
          else is_numeral d \<and> i = int (numeral_value d))"

text \<open>A needle occurs somewhere in a text.\<close>

abbreviation occurs_in :: "string \<Rightarrow> string \<Rightarrow> bool" where
  "occurs_in needle s \<equiv> \<exists>a b. s = a @ needle @ b"

section \<open>Searching\<close>

lemma starts_with_iff: "starts_with p s \<longleftrightarrow> (\<exists>t. s = p @ t)"
  by (induction p s rule: starts_with.induct) auto

text \<open>\<^const>\<open>str_find\<close> misses exactly the texts in which the needle does not occur.\<close>

lemma str_find_None_iff: "str_find n s = None \<longleftrightarrow> \<not> occurs_in n s"
proof (induction s)
  case Nil
  then show ?case by auto
next
  case (Cons c s)
  show ?case
  proof (cases "starts_with n (c # s)")
    case True
    then obtain t where "c # s = n @ t" by (auto simp: starts_with_iff)
    then have "c # s = [] @ n @ t" by simp
    then have "occurs_in n (c # s)" by blast
    with True show ?thesis by simp
  next
    case False
    have "occurs_in n (c # s) \<longleftrightarrow> occurs_in n s"
    proof
      assume "occurs_in n (c # s)"
      then obtain a b where ab: "c # s = a @ n @ b" by blast
      show "occurs_in n s"
      proof (cases a)
        case Nil
        with ab have "starts_with n (c # s)" by (simp add: starts_with_iff)
        with False show ?thesis by simp
      next
        case (Cons x a')
        with ab have "s = a' @ n @ b" by simp
        then show ?thesis by blast
      qed
    next
      assume "occurs_in n s"
      then obtain a b where "s = a @ n @ b" by blast
      then have "c # s = (c # a) @ n @ b" by simp
      then show "occurs_in n (c # s)" by blast
    qed
    with False Cons.IH show ?thesis by simp
  qed
qed

lemma str_find_found_iff: "str_find n s \<noteq> None \<longleftrightarrow> occurs_in n s"
  by (simp add: str_find_None_iff)

text \<open>What it finds is the first position at which the needle starts.\<close>

lemma str_find_first:
  "str_find n s = Some i \<Longrightarrow>
     i \<le> length s \<and> starts_with n (drop i s) \<and> (\<forall>j<i. \<not> starts_with n (drop j s))"
proof (induction s arbitrary: i)
  case Nil
  then show ?case by (simp split: if_splits)
next
  case (Cons c s)
  show ?case
  proof (cases "starts_with n (c # s)")
    case True
    with Cons.prems show ?thesis by simp
  next
    case False
    with Cons.prems obtain k where k: "str_find n s = Some k" "i = Suc k" by auto
    from Cons.IH [OF k(1)] have ih: "k \<le> length s" "starts_with n (drop k s)"
      "\<forall>j<k. \<not> starts_with n (drop j s)" by simp_all
    have "\<not> starts_with n (drop j (c # s))" if "j < Suc k" for j
      using that False ih(3) by (cases j) simp_all
    with ih k show ?thesis by simp
  qed
qed

section \<open>Printed integers\<close>

lemma digits_chars: "set (digits n) \<subseteq> set ''0123456789''"
proof (induction n rule: digits.induct)
  case (1 n)
  have m: "''0123456789'' ! k \<in> set ''0123456789''" if "k < 10" for k
    using that by (intro nth_mem) simp
  show ?case
  proof (cases "n < 10")
    case True
    then show ?thesis using m [of n] by (subst digits.simps) simp
  next
    case False
    have "n mod 10 < 10" by simp
    from m [OF this] 1 False show ?thesis by (subst digits.simps) simp
  qed
qed

lemma dec_chars: "set (dec i) \<subseteq> set ''-0123456789''"
proof -
  have "set (digits n) \<subseteq> set ''-0123456789''" for n
    using digits_chars [of n] by (rule subset_trans) (simp add: subset_iff)
  then show ?thesis by (simp add: dec_def)
qed

lemma to_string_no_lt: "CHR ''<'' \<notin> set (to_string v)"
proof -
  have "CHR ''<'' \<notin> set ''-0123456789''" by simp
  with dec_chars [of "sint v"] show ?thesis unfolding to_string_def by blast
qed

lemma to_string_no_quote: "CHR 0x22 \<notin> set (to_string v)"
proof -
  have "CHR 0x22 \<notin> set ''-0123456789''" by simp
  with dec_chars [of "sint v"] show ?thesis unfolding to_string_def by blast
qed

section \<open>What the printed text denotes\<close>

text \<open>
  \<^const>\<open>dec\<close> prints the decimal numeral of its argument, and nothing else is one:
  \<^const>\<open>denotes\<close> reads a text without reference to how it was printed.
\<close>

lemma digit_cases: "k < 10 \<Longrightarrow> k \<in> {0, 1, 2, 3, 4, 5, 6, 7, 8, 9 :: nat}"
  by auto

lemma digit_char_value: "k < 10 \<Longrightarrow> (of_char (''0123456789'' ! k) :: nat) - 48 = k"
  using digit_cases [of k] by auto

lemma digit_char_zero: "k < 10 \<Longrightarrow> ''0123456789'' ! k = CHR ''0'' \<Longrightarrow> k = 0"
  using digit_cases [of k] by auto

lemma numeral_value_snoc:
  "numeral_value (xs @ [c]) = 10 * numeral_value xs + (of_char c - 48)"
  by (simp add: numeral_value_def)

lemma digits_value: "numeral_value (digits n) = n"
proof (induction n rule: digits.induct)
  case (1 n)
  show ?case
  proof (cases "n < 10")
    case True
    then show ?thesis
      by (subst digits.simps) (simp add: numeral_value_def digit_char_value)
  next
    case False
    with 1 have "numeral_value (digits (n div 10)) = n div 10" by simp
    with False show ?thesis
      by (subst digits.simps) (simp add: numeral_value_snoc digit_char_value)
  qed
qed

lemma digits_not_Nil: "digits n \<noteq> []"
  by (subst digits.simps) simp

lemma digits_numeral: "is_numeral (digits n)"
proof -
  have all: "list_all (\<lambda>c. c \<in> set ''0123456789'') (digits n)"
    using digits_chars [of n] unfolding list_all_iff by blast
  have lead: "hd (digits n) = CHR ''0'' \<Longrightarrow> digits n = ''0''" for n
  proof (induction n rule: digits.induct)
    case (1 n)
    show ?case
    proof (cases "n < 10")
      case True
      with 1(2) have "''0123456789'' ! n = CHR ''0''" by (subst (asm) digits.simps) simp
      with True have "n = 0" by (rule digit_char_zero)
      then show ?thesis by (subst digits.simps) simp
    next
      case False
      with 1(2) have "hd (digits (n div 10)) = CHR ''0''"
        by (subst (asm) digits.simps) (simp add: digits_not_Nil)
      with 1(1) False have "digits (n div 10) = ''0''" by simp
      then have "numeral_value (digits (n div 10)) = 0" by (simp add: numeral_value_def)
      then have "n div 10 = 0" by (simp only: digits_value)
      with False show ?thesis by simp
    qed
  qed
  from all lead [of n] digits_not_Nil [of n] show ?thesis by (simp add: is_numeral_def)
qed

lemma digits_hd_not_minus: "hd (digits n) \<noteq> CHR ''-''"
proof -
  have "hd (digits n) \<in> set (digits n)" using digits_not_Nil by (rule hd_in_set)
  with digits_chars [of n] have "hd (digits n) \<in> set ''0123456789''" by blast
  then show ?thesis by auto
qed

lemma dec_denotes: "denotes (dec i) i"
proof (cases "i < 0")
  case True
  have "digits (nat (- i)) \<noteq> ''0''"
  proof
    assume "digits (nat (- i)) = ''0''"
    then have "numeral_value (digits (nat (- i))) = 0" by (simp add: numeral_value_def)
    then have "nat (- i) = 0" by (simp only: digits_value)
    with True show False by simp
  qed
  with True digits_numeral [of "nat (- i)"] show ?thesis
    by (simp add: denotes_def dec_def digits_value)
next
  case False
  obtain c r where cr: "digits (nat i) = c # r"
    using digits_not_Nil [of "nat i"] by (cases "digits (nat i)") auto
  with digits_hd_not_minus [of "nat i"] have "c \<noteq> CHR ''-''" by simp
  with False cr digits_numeral [of "nat i"] digits_value [of "nat i"] show ?thesis
    by (simp add: denotes_def dec_def)
qed

lemma to_string_denotes: "denotes (to_string v) (sint v)"
  by (simp only: to_string_def dec_denotes)

lemma digit_char_cases:
  "c \<in> set ''0123456789'' \<Longrightarrow>
     c = CHR ''0'' \<or> c = CHR ''1'' \<or> c = CHR ''2'' \<or> c = CHR ''3'' \<or> c = CHR ''4'' \<or>
     c = CHR ''5'' \<or> c = CHR ''6'' \<or> c = CHR ''7'' \<or> c = CHR ''8'' \<or> c = CHR ''9''"
  by simp

lemma digit_value_char:
  assumes "c \<in> set ''0123456789''"
  shows "(of_char c :: nat) - 48 < 10 \<and> ''0123456789'' ! (of_char c - 48) = c
         \<and> (c \<noteq> CHR ''0'' \<longrightarrow> 0 < (of_char c :: nat) - 48)"
  using digit_char_cases [OF assms] by auto

lemma numeral_value_pos:
  "list_all (\<lambda>c. c \<in> set ''0123456789'') xs \<Longrightarrow> xs \<noteq> [] \<Longrightarrow> hd xs \<noteq> CHR ''0'' \<Longrightarrow>
     0 < numeral_value xs"
proof (induction xs rule: rev_induct)
  case Nil
  then show ?case by simp
next
  case (snoc c ys)
  show ?case
  proof (cases "ys = []")
    case True
    with snoc.prems have "c \<in> set ''0123456789''" "c \<noteq> CHR ''0''" by simp_all
    with digit_value_char [of c] True show ?thesis by (simp add: numeral_value_def)
  next
    case False
    with snoc have "0 < numeral_value ys" by simp
    then show ?thesis by (simp add: numeral_value_snoc)
  qed
qed

lemma digits_of_value: "is_numeral d \<Longrightarrow> digits (numeral_value d) = d"
proof (induction d rule: rev_induct)
  case Nil
  then show ?case by (simp add: is_numeral_def)
next
  case (snoc c ys)
  from snoc.prems have c: "c \<in> set ''0123456789''" by (simp add: is_numeral_def)
  note dv = digit_value_char [OF c]
  show ?case
  proof (cases "ys = []")
    case True
    with dv show ?thesis
      by (subst digits.simps) (simp add: numeral_value_def)
  next
    case False
    have nz: "hd ys \<noteq> CHR ''0''"
    proof
      assume "hd ys = CHR ''0''"
      with False have "hd (ys @ [c]) = CHR ''0''" by simp
      with snoc.prems have "ys @ [c] = ''0''" by (simp only: is_numeral_def)
      with False show False by simp
    qed
    from snoc.prems False nz have all: "list_all (\<lambda>c. c \<in> set ''0123456789'') ys"
      and num: "is_numeral ys"
      by (simp_all add: is_numeral_def)
    from numeral_value_pos [OF all False nz] have pos: "0 < numeral_value ys" .
    from snoc.IH [OF num] have ih: "digits (numeral_value ys) = ys" .
    let ?n = "10 * numeral_value ys + (of_char c - 48)"
    from pos have big: "\<not> ?n < 10" by simp
    from dv have "?n div 10 = numeral_value ys" "?n mod 10 = of_char c - 48" by simp_all
    with big ih dv have "digits ?n = ys @ [c]"
      by (subst digits.simps) simp
    then show ?thesis by (simp only: numeral_value_snoc)
  qed
qed

lemma denotes_iff: "denotes d i \<longleftrightarrow> d = dec i"
proof
  assume "d = dec i"
  then show "denotes d i" by (simp only: dec_denotes)
next
  assume den: "denotes d i"
  then obtain c r where d: "d = c # r" by (cases d) (simp_all add: denotes_def)
  show "d = dec i"
  proof (cases "c = CHR ''-''")
    case True
    with den d have num: "is_numeral r" and nz: "r \<noteq> ''0''" and i: "i = - int (numeral_value r)"
      by (simp_all add: denotes_def)
    from num nz have "hd r \<noteq> CHR ''0''" "r \<noteq> []" "list_all (\<lambda>c. c \<in> set ''0123456789'') r"
      by (auto simp: is_numeral_def)
    then have "0 < numeral_value r" using numeral_value_pos by blast
    with i have "i < 0" "nat (- i) = numeral_value r" by simp_all
    with digits_of_value [OF num] d True show ?thesis by (simp add: dec_def)
  next
    case False
    with den d have num: "is_numeral d" and i: "i = int (numeral_value d)"
      by (simp_all add: denotes_def)
    with digits_of_value [OF num] show ?thesis by (simp add: dec_def)
  qed
qed

section \<open>The server object is never written\<close>

lemma handleGetDeviceInformation_frame: "snd (handleGetDeviceInformation st) = st"
  by (simp only: handleGetDeviceInformation_def Let_def snd_conv)

lemma handleGetCapabilities_frame: "snd (handleGetCapabilities st) = st"
  by (simp only: handleGetCapabilities_def Let_def snd_conv)

lemma handleGetProfiles_frame: "snd (handleGetProfiles st) = st"
  by (simp only: handleGetProfiles_def Let_def snd_conv)

lemma handleGetStreamUri_frame: "snd (handleGetStreamUri st) = st"
  by (simp only: handleGetStreamUri_def Let_def snd_conv)

lemma handleGetSystemDateAndTime_frame: "snd (handleGetSystemDateAndTime clock st) = st"
  by (simp only: handleGetSystemDateAndTime_def Let_def snd_conv)

lemma handlePTZGetConfigurations_frame: "snd (handlePTZGetConfigurations st) = st"
  by (simp only: handlePTZGetConfigurations_def Let_def snd_conv)

lemmas handler_frames =
  handleGetDeviceInformation_frame handleGetCapabilities_frame handleGetProfiles_frame
  handleGetStreamUri_frame handleGetSystemDateAndTime_frame handlePTZGetConfigurations_frame

section \<open>The dispatcher selects by classification\<close>

lemma processRequest_classify:
  \<open>processRequest clock st request =
     (case classify request of
        GetDeviceInformation \<Rightarrow> handleGetDeviceInformation st
      | GetCapabilities \<Rightarrow> handleGetCapabilities st
      | GetProfiles \<Rightarrow> handleGetProfiles st
      | GetStreamUri \<Rightarrow> handleGetStreamUri st
      | GetSystemDateAndTime \<Rightarrow> handleGetSystemDateAndTime clock st
      | PTZGetConfigurations \<Rightarrow> handlePTZGetConfigurations st
      | Unrecognized \<Rightarrow>
          (generateSoapEnvelope
             (''<SOAP-ENV:Fault>\<newline>'' @
              ''<SOAP-ENV:Code>\<newline>'' @
              ''<SOAP-ENV:Value>SOAP-ENV:Receiver</SOAP-ENV:Value>\<newline>'' @
              ''</SOAP-ENV:Code>\<newline>'' @
              ''<SOAP-ENV:Reason>\<newline>'' @
              ''<SOAP-ENV:Text>Method not implemented</SOAP-ENV:Text>\<newline>'' @
              ''</SOAP-ENV:Reason>\<newline>'' @
              ''</SOAP-ENV:Fault>''), st))\<close>
  by (simp add: processRequest_def classify_def)

lemma processRequest_frame: "snd (processRequest clock st request) = st"
  by (cases "classify request")
     (simp_all only: processRequest_classify Operation.case handler_frames snd_conv)

text \<open>No handler reads the flag that \<^const>\<open>start\<close> and \<^const>\<open>stop\<close> write.\<close>

lemma running_update_fields:
  "port (st\<lparr>running := b\<rparr>) = port st"
  "device_uuid (st\<lparr>running := b\<rparr>) = device_uuid st"
  "manufacturer (st\<lparr>running := b\<rparr>) = manufacturer st"
  "model (st\<lparr>running := b\<rparr>) = model st"
  "serial_number (st\<lparr>running := b\<rparr>) = serial_number st"
  "firmware_version (st\<lparr>running := b\<rparr>) = firmware_version st"
  "media_profiles (st\<lparr>running := b\<rparr>) = media_profiles st"
  by simp_all

lemma handlers_ignore_running:
  "fst (handleGetDeviceInformation (st\<lparr>running := b\<rparr>)) = fst (handleGetDeviceInformation st)"
  "fst (handleGetCapabilities (st\<lparr>running := b\<rparr>)) = fst (handleGetCapabilities st)"
  "fst (handleGetProfiles (st\<lparr>running := b\<rparr>)) = fst (handleGetProfiles st)"
  "fst (handleGetStreamUri (st\<lparr>running := b\<rparr>)) = fst (handleGetStreamUri st)"
  "fst (handleGetSystemDateAndTime clock (st\<lparr>running := b\<rparr>)) =
     fst (handleGetSystemDateAndTime clock st)"
  "fst (handlePTZGetConfigurations (st\<lparr>running := b\<rparr>)) = fst (handlePTZGetConfigurations st)"
  unfolding handleGetDeviceInformation_def handleGetCapabilities_def handleGetProfiles_def
    handleGetStreamUri_def handleGetSystemDateAndTime_def handlePTZGetConfigurations_def
    Let_def fst_conv
  by (simp_all only: running_update_fields)

lemma processRequest_ignores_running:
  "fst (processRequest clock (st\<lparr>running := b\<rparr>) request) = fst (processRequest clock st request)"
  by (cases "classify request")
     (simp_all only: processRequest_classify Operation.case handlers_ignore_running fst_conv)

lemma reachable_is_new: "reachable p st \<Longrightarrow> \<exists>b. st = (OnvifServer_new p)\<lparr>running := b\<rparr>"
proof (induction rule: reachable.induct)
  case reachable_new
  have "OnvifServer_new p = (OnvifServer_new p)\<lparr>running := running (OnvifServer_new p)\<rparr>"
    by simp
  then show ?case by (rule exI)
next
  case (reachable_start st ok)
  then obtain b where "st = (OnvifServer_new p)\<lparr>running := b\<rparr>" by blast
  then have "snd (start ok st) = (OnvifServer_new p)\<lparr>running := (ok \<or> b)\<rparr>"
    by (simp add: start_def)
  then show ?case by (rule exI)
next
  case (reachable_stop st)
  then obtain b where "st = (OnvifServer_new p)\<lparr>running := b\<rparr>" by blast
  then have "stop st = (OnvifServer_new p)\<lparr>running := False\<rparr>"
    by (simp add: stop_def)
  then show ?case by (rule exI)
next
  case (reachable_step st clock request)
  then show ?case by (simp only: processRequest_frame)
qed

lemma reachable_response:
  assumes "reachable p st"
  shows "fst (processRequest clock st request) = fst (processRequest clock (OnvifServer_new p) request)"
proof -
  from assms obtain b where "st = (OnvifServer_new p)\<lparr>running := b\<rparr>"
    using reachable_is_new by blast
  then show ?thesis by (simp only: processRequest_ignores_running)
qed

lemma reachable_profiles:
  assumes "reachable p st"
  shows "media_profiles st = media_profiles (OnvifServer_new p)"
proof -
  from assms obtain b where "st = (OnvifServer_new p)\<lparr>running := b\<rparr>"
    using reachable_is_new by blast
  then show ?thesis by simp
qed

lemma media_profiles_new:
  "media_profiles (OnvifServer_new p) =
     [\<lparr>token = ''Profile_1'', name = ''MainStream'',
       video_encoder_token = ''VideoEncoder_1'', audio_encoder_token = ''AudioEncoder_1'',
       width = 1920, height = 1080, framerate = 30, bitrate = 4000000\<rparr>,
      \<lparr>token = ''Profile_2'', name = ''SubStream'',
       video_encoder_token = ''VideoEncoder_2'', audio_encoder_token = ''AudioEncoder_2'',
       width = 640, height = 480, framerate = 15, bitrate = 1000000\<rparr>]"
  by (simp add: OnvifServer_new_def initializeMediaProfiles_def)

lemma port_new: "port (OnvifServer_new p) = p"
  by (simp add: OnvifServer_new_def initializeMediaProfiles_def)

lemma handleGetSystemDateAndTime_clock:
  "handleGetSystemDateAndTime clock st = handleGetSystemDateAndTime clock' st"
  by (simp only: handleGetSystemDateAndTime_def Let_def)

lemma processRequest_clock:
  "processRequest clock st request = processRequest clock' st request"
  by (cases "classify request")
     (simp_all only: processRequest_classify Operation.case
        handleGetSystemDateAndTime_clock [of clock st clock'])

section \<open>Classification\<close>

text \<open>
  C1. The dispatcher looks for the six operation names in the order
  GetDeviceInformation, GetCapabilities, GetProfiles, GetStreamUri, GetSystemDateAndTime,
  GetConfigurations, and the first name that occurs anywhere in the request decides the
  handler that runs. A request with both GetDeviceInformation and GetCapabilities, in
  either order, is a GetDeviceInformation request; a request with none of the six names,
  the empty request included, is unrecognized, and is answered as the empty request is.
\<close>

theorem classify_first_match:
  \<open>classify s =
     (if occurs_in ''GetDeviceInformation'' s then GetDeviceInformation
      else if occurs_in ''GetCapabilities'' s then GetCapabilities
      else if occurs_in ''GetProfiles'' s then GetProfiles
      else if occurs_in ''GetStreamUri'' s then GetStreamUri
      else if occurs_in ''GetSystemDateAndTime'' s then GetSystemDateAndTime
      else if occurs_in ''GetConfigurations'' s then PTZGetConfigurations
      else Unrecognized)
   \<and> classify (a @ ''GetDeviceInformation'' @ b @ ''GetCapabilities'' @ c) = GetDeviceInformation
   \<and> classify (a @ ''GetCapabilities'' @ b @ ''GetDeviceInformation'' @ c) = GetDeviceInformation
   \<and> classify [] = Unrecognized
   \<and> (\<not> occurs_in ''GetDeviceInformation'' s \<and> \<not> occurs_in ''GetCapabilities'' s \<and>
      \<not> occurs_in ''GetProfiles'' s \<and> \<not> occurs_in ''GetStreamUri'' s \<and>
      \<not> occurs_in ''GetSystemDateAndTime'' s \<and> \<not> occurs_in ''GetConfigurations'' s
      \<longrightarrow> classify s = Unrecognized)
   \<and> processRequest clock st s =
       (case classify s of
          GetDeviceInformation \<Rightarrow> handleGetDeviceInformation st
        | GetCapabilities \<Rightarrow> handleGetCapabilities st
        | GetProfiles \<Rightarrow> handleGetProfiles st
        | GetStreamUri \<Rightarrow> handleGetStreamUri st
        | GetSystemDateAndTime \<Rightarrow> handleGetSystemDateAndTime clock st
        | PTZGetConfigurations \<Rightarrow> handlePTZGetConfigurations st
        | Unrecognized \<Rightarrow> processRequest clock st [])\<close>
proof -
  have chain: \<open>classify r =
     (if occurs_in ''GetDeviceInformation'' r then GetDeviceInformation
      else if occurs_in ''GetCapabilities'' r then GetCapabilities
      else if occurs_in ''GetProfiles'' r then GetProfiles
      else if occurs_in ''GetStreamUri'' r then GetStreamUri
      else if occurs_in ''GetSystemDateAndTime'' r then GetSystemDateAndTime
      else if occurs_in ''GetConfigurations'' r then PTZGetConfigurations
      else Unrecognized)\<close> for r
    unfolding classify_def by (simp only: str_find_found_iff)
  have first: \<open>occurs_in ''GetDeviceInformation'' (a @ ''GetDeviceInformation'' @ b @ ''GetCapabilities'' @ c)\<close>
    by blast
  have \<open>a @ ''GetCapabilities'' @ b @ ''GetDeviceInformation'' @ c =
        (a @ ''GetCapabilities'' @ b) @ ''GetDeviceInformation'' @ c\<close>
    by simp
  then have second: \<open>occurs_in ''GetDeviceInformation'' (a @ ''GetCapabilities'' @ b @ ''GetDeviceInformation'' @ c)\<close>
    by blast
  have empty: "classify [] = Unrecognized"
    by (simp add: classify_def)
  have none: \<open>\<not> occurs_in ''GetDeviceInformation'' s \<and> \<not> occurs_in ''GetCapabilities'' s \<and>
      \<not> occurs_in ''GetProfiles'' s \<and> \<not> occurs_in ''GetStreamUri'' s \<and>
      \<not> occurs_in ''GetSystemDateAndTime'' s \<and> \<not> occurs_in ''GetConfigurations'' s
      \<longrightarrow> classify s = Unrecognized\<close>
    unfolding str_find_None_iff [symmetric] by (simp add: classify_def)
  have run: \<open>processRequest clock st s =
       (case classify s of
          GetDeviceInformation \<Rightarrow> handleGetDeviceInformation st
        | GetCapabilities \<Rightarrow> handleGetCapabilities st
        | GetProfiles \<Rightarrow> handleGetProfiles st
        | GetStreamUri \<Rightarrow> handleGetStreamUri st
        | GetSystemDateAndTime \<Rightarrow> handleGetSystemDateAndTime clock st
        | PTZGetConfigurations \<Rightarrow> handlePTZGetConfigurations st
        | Unrecognized \<Rightarrow> processRequest clock st [])\<close>
    by (cases "classify s") (simp_all only: processRequest_classify Operation.case empty)
  from chain [of s] first second empty none run show ?thesis
    by (simp only: chain if_True simp_thms)
qed

theorem classify_first_match_witness:
  \<open>occurs_in ''GetDeviceInformation'' ''<GetCapabilities/><GetDeviceInformation/>''
   \<and> occurs_in ''GetCapabilities'' ''<GetCapabilities/><GetDeviceInformation/>''
   \<and> classify ''<GetCapabilities/><GetDeviceInformation/>'' = GetDeviceInformation
   \<and> \<not> occurs_in ''GetDeviceInformation'' ''garbage'' \<and> \<not> occurs_in ''GetCapabilities'' ''garbage''
   \<and> \<not> occurs_in ''GetProfiles'' ''garbage'' \<and> \<not> occurs_in ''GetStreamUri'' ''garbage''
   \<and> \<not> occurs_in ''GetSystemDateAndTime'' ''garbage'' \<and> \<not> occurs_in ''GetConfigurations'' ''garbage''
   \<and> classify ''garbage'' = Unrecognized\<close>
proof -
  have \<open>''<GetCapabilities/><GetDeviceInformation/>'' =
        ''<GetCapabilities/><'' @ ''GetDeviceInformation'' @ ''/>''\<close>
    by simp
  then have g1: \<open>occurs_in ''GetDeviceInformation'' ''<GetCapabilities/><GetDeviceInformation/>''\<close>
    by blast
  have \<open>''<GetCapabilities/><GetDeviceInformation/>'' =
        ''<'' @ ''GetCapabilities'' @ ''/><GetDeviceInformation/>''\<close>
    by simp
  then have g2: \<open>occurs_in ''GetCapabilities'' ''<GetCapabilities/><GetDeviceInformation/>''\<close>
    by blast
  have n: \<open>\<not> occurs_in ''GetDeviceInformation'' ''garbage''\<close> \<open>\<not> occurs_in ''GetCapabilities'' ''garbage''\<close>
    \<open>\<not> occurs_in ''GetProfiles'' ''garbage''\<close> \<open>\<not> occurs_in ''GetStreamUri'' ''garbage''\<close>
    \<open>\<not> occurs_in ''GetSystemDateAndTime'' ''garbage''\<close> \<open>\<not> occurs_in ''GetConfigurations'' ''garbage''\<close>
    unfolding str_find_None_iff [symmetric] by simp_all
  from classify_first_match [of \<open>''<GetCapabilities/><GetDeviceInformation/>''\<close>] g1
  have c1: \<open>classify ''<GetCapabilities/><GetDeviceInformation/>'' = GetDeviceInformation\<close>
    by (simp only: if_True simp_thms)
  from classify_first_match [of \<open>''garbage''\<close>] n
  have c2: \<open>classify ''garbage'' = Unrecognized\<close>
    by (simp only: if_False simp_thms)
  from g1 g2 n c1 c2 show ?thesis by (simp only: simp_thms)
qed

section \<open>The frame of a request\<close>

text \<open>
  C9. No request writes the server object: after \<^const>\<open>processRequest\<close> returns, the
  identity fields (uuid, name, manufacturer, model, serial number, firmware version) and
  the list of media profiles (its length, its entries, their order) are what they were
  before the call, whatever the request is.
\<close>

theorem dispatch_leaves_server_unchanged:
  "snd (processRequest clock st request) = st
   \<and> device_uuid (snd (processRequest clock st request)) = device_uuid st
   \<and> device_name (snd (processRequest clock st request)) = device_name st
   \<and> manufacturer (snd (processRequest clock st request)) = manufacturer st
   \<and> model (snd (processRequest clock st request)) = model st
   \<and> serial_number (snd (processRequest clock st request)) = serial_number st
   \<and> firmware_version (snd (processRequest clock st request)) = firmware_version st
   \<and> length (media_profiles (snd (processRequest clock st request))) = length (media_profiles st)
   \<and> media_profiles (snd (processRequest clock st request)) = media_profiles st"
  by (simp only: processRequest_frame simp_thms)

theorem dispatch_leaves_server_unchanged_witness:
  \<open>snd (processRequest ''2026-10-30T08:15:42Z'' (OnvifServer_new 8080) ''<trt:GetProfiles/>'')
     = OnvifServer_new 8080\<close>
  using dispatch_leaves_server_unchanged
    [of \<open>''2026-10-30T08:15:42Z''\<close> "OnvifServer_new 8080" \<open>''<trt:GetProfiles/>''\<close>]
  by (simp only: simp_thms)

section \<open>The default profiles\<close>

text \<open>
  C7. After construction the server holds exactly two media profiles, in this order:
  MainStream (1920 x 1080, 30 frames per second, 4000000 bits per second) and SubStream
  (640 x 480, 15 frames per second, 1000000 bits per second). Their tokens differ and
  every width, height, frame rate and bit rate is positive. This holds in every state
  that starting the server and any sequence of requests reach.
\<close>

theorem default_profiles_invariant:
  "reachable p st \<Longrightarrow>
     map (\<lambda>m. (token m, name m, sint (width m), sint (height m), sint (framerate m),
               sint (bitrate m))) (media_profiles st) =
       [(''Profile_1'', ''MainStream'', 1920, 1080, 30, 4000000),
        (''Profile_2'', ''SubStream'', 640, 480, 15, 1000000)]
     \<and> length (media_profiles st) = 2
     \<and> distinct (map token (media_profiles st))
     \<and> (\<forall>m \<in> set (media_profiles st).
          0 < sint (width m) \<and> 0 < sint (height m) \<and> 0 < sint (framerate m) \<and>
          0 < sint (bitrate m))"
proof -
  assume "reachable p st"
  then have "media_profiles st = media_profiles (OnvifServer_new p)"
    by (rule reachable_profiles)
  then show ?thesis by (simp add: media_profiles_new)
qed

theorem default_profiles_invariant_witness:
  \<open>reachable 8080 (OnvifServer_new 8080)
   \<and> reachable 8080 (snd (processRequest ''2026-10-30T08:15:42Z''
         (snd (start True (OnvifServer_new 8080))) ''<trt:GetProfiles/>''))
   \<and> map (\<lambda>m. (token m, name m, sint (width m), sint (height m), sint (framerate m),
               sint (bitrate m)))
        (media_profiles (snd (processRequest ''2026-10-30T08:15:42Z''
           (snd (start True (OnvifServer_new 8080))) ''<trt:GetProfiles/>'')))
      = [(''Profile_1'', ''MainStream'', 1920, 1080, 30, 4000000),
         (''Profile_2'', ''SubStream'', 640, 480, 15, 1000000)]\<close>
proof -
  have r0: "reachable 8080 (OnvifServer_new 8080)" by (rule reachable_new)
  then have "reachable 8080 (snd (start True (OnvifServer_new 8080)))"
    by (rule reachable_start)
  then have r1: \<open>reachable 8080 (snd (processRequest ''2026-10-30T08:15:42Z''
         (snd (start True (OnvifServer_new 8080))) ''<trt:GetProfiles/>''))\<close>
    by (rule reachable_step)
  from r0 r1 default_profiles_invariant [OF r1, THEN conjunct1] show ?thesis
    by blast
qed

section \<open>Determinism\<close>

text \<open>
  C8. The response is a function of the request text alone: two calls with the same
  request, at any two times and in any two states that starting the server and sequences
  of earlier requests have reached, return the same bytes. This includes
  GetSystemDateAndTime.
\<close>

theorem dispatch_deterministic:
  "reachable p st \<Longrightarrow> reachable p st' \<Longrightarrow>
     fst (processRequest clock st request) = fst (processRequest clock' st' request)"
proof -
  assume "reachable p st" and "reachable p st'"
  then have "fst (processRequest clock st request) =
      fst (processRequest clock (OnvifServer_new p) request)"
    and "fst (processRequest clock' st' request) =
      fst (processRequest clock' (OnvifServer_new p) request)"
    by (simp_all only: reachable_response)
  then show ?thesis
    by (simp only: processRequest_clock [of clock _ request clock'])
qed

theorem dispatch_deterministic_witness:
  \<open>fst (processRequest ''2024-01-01T12:00:00Z'' (snd (start True (OnvifServer_new 8080)))
          ''<tds:GetSystemDateAndTime/>'')
   = fst (processRequest ''2026-10-30T08:15:42Z''
       (snd (processRequest ''2026-10-30T08:15:41Z'' (snd (start True (OnvifServer_new 8080)))
          ''<trt:GetProfiles/>''))
       ''<tds:GetSystemDateAndTime/>'')\<close>
  by (rule dispatch_deterministic
      [OF reachable_start [OF reachable_new] reachable_step [OF reachable_start [OF reachable_new]]])

section \<open>Scanning a text one character at a time\<close>

lemma count_occ_skip: "c \<noteq> a \<Longrightarrow> count_occ (a # n) (c # s) = count_occ (a # n) s"
  by simp

lemma count_occ_hit:
  "starts_with n s \<Longrightarrow> count_occ (a # n) (a # s) = Suc (count_occ (a # n) s)"
  by simp

lemma count_occ_miss:
  "\<not> starts_with n s \<Longrightarrow> count_occ (a # n) (a # s) = count_occ (a # n) s"
  by simp

lemma count_occ_no_first: "a \<notin> set d \<Longrightarrow> count_occ (a # n) (d @ r) = count_occ (a # n) r"
  by (induction d) auto

lemma starts_with_append_no_first:
  "a \<notin> set n \<Longrightarrow> starts_with n (xs @ a # ys) = starts_with n xs"
  by (induction n xs rule: starts_with.induct) auto

lemma count_occ_boundary:
  "a \<notin> set n \<Longrightarrow>
   count_occ (a # n) (xs @ a # ys) = count_occ (a # n) xs + count_occ (a # n) (a # ys)"
proof (induction xs)
  case Nil
  then show ?case by simp
next
  case (Cons x xs)
  then have "starts_with n (xs @ a # ys) = starts_with n xs"
    by (simp add: starts_with_append_no_first)
  with Cons show ?case by simp
qed

lemma starts_with_appendD: "starts_with (p @ q) s \<Longrightarrow> starts_with p s"
  by (auto simp: starts_with_iff)

lemma count_occ_longer_needle: "count_occ p s = 0 \<Longrightarrow> count_occ (p @ q) s = 0"
proof (induction s)
  case Nil
  then show ?case by simp
next
  case (Cons c s)
  then have "\<not> starts_with p (c # s)" and "count_occ p s = 0"
    by (simp_all split: if_splits)
  with Cons.IH starts_with_appendD [of p q "c # s"] show ?case by auto
qed

lemma after_first_Nil: "after_first (a # n) [] = None"
  by simp

lemma after_first_skip: "c \<noteq> a \<Longrightarrow> after_first (a # n) (c # s) = after_first (a # n) s"
  by simp

lemma after_first_hit:
  "starts_with n s \<Longrightarrow> after_first (a # n) (a # s) = Some (drop (length n) s)"
  by simp

lemma after_first_miss:
  "\<not> starts_with n s \<Longrightarrow> after_first (a # n) (a # s) = after_first (a # n) s"
  by simp

lemma after_first_no_first: "a \<notin> set d \<Longrightarrow> after_first (a # n) (d @ r) = after_first (a # n) r"
  by (induction d) auto

lemma before_first_Nil: "before_first (a # n) [] = None"
  by simp

lemma before_first_skip:
  "c \<noteq> a \<Longrightarrow> before_first (a # n) (c # s) = map_option ((#) c) (before_first (a # n) s)"
  by simp

lemma before_first_hit: "starts_with n s \<Longrightarrow> before_first (a # n) (a # s) = Some []"
  by simp

lemma before_first_miss:
  "\<not> starts_with n s \<Longrightarrow>
   before_first (a # n) (a # s) = map_option ((#) a) (before_first (a # n) s)"
  by simp

lemma before_first_no_first:
  "a \<notin> set d \<Longrightarrow>
   before_first (a # n) (d @ r) = map_option ((@) d) (before_first (a # n) r)"
proof (induction d)
  case Nil
  show ?case by (cases "before_first (a # n) r") simp_all
next
  case (Cons x d)
  then show ?case by (cases "before_first (a # n) r") simp_all
qed

lemmas scan_rules =
  count_occ_skip count_occ_hit count_occ_miss count_occ_no_first
  after_first_Nil after_first_skip after_first_hit after_first_miss after_first_no_first
  before_first_Nil before_first_skip before_first_hit before_first_miss before_first_no_first
  to_string_no_lt

lemmas scan_defs = count_occ.simps(2) after_first.simps(2) before_first.simps(2)

lemma starts_with_append_short:
  "length n \<le> length xs \<Longrightarrow> starts_with n (xs @ ys) = starts_with n xs"
  by (induction n xs rule: starts_with.induct) auto

lemma count_occ_append:
  "a \<notin> set (drop (length xs - length n) xs) \<Longrightarrow>
   count_occ (a # n) (xs @ ys) = count_occ (a # n) xs + count_occ (a # n) ys"
proof (induction xs)
  case Nil
  then show ?case by simp
next
  case (Cons x xs)
  show ?case
  proof (cases "length n \<le> length xs")
    case True
    then have "Suc (length xs) - length n = Suc (length xs - length n)" by simp
    with Cons.prems have "a \<notin> set (drop (length xs - length n) xs)" by simp
    with Cons.IH True show ?thesis by (simp add: starts_with_append_short)
  next
    case False
    with Cons.prems have "a \<notin> set (x # xs)" by simp
    then show ?thesis by (simp add: count_occ_no_first [of a "xs" n ys] count_occ_no_first [of a xs n "[]", simplified])
  qed
qed

lemmas count_rules =
  count_occ_skip count_occ_hit count_occ_miss count_occ_append count_occ_no_first
  to_string_no_lt

section \<open>Printed integers without overflow\<close>

lemma sint_succ:
  fixes v :: cint
  assumes "sint v < 2147483647"
  shows "sint (v + 1) = sint v + 1"
proof -
  have lo: "- (2 ^ 31) \<le> sint v" using sint_ge [of v] by simp
  have "sint (v + 1) = signed_take_bit 31 (sint v + 1)"
    by (simp add: sint_word_ariths)
  also have "\<dots> = sint v + 1"
    using lo assms by (intro signed_take_bit_int_eq_self) simp_all
  finally show ?thesis .
qed

lemma to_string_succ: "sint v < 2147483647 \<Longrightarrow> to_string (v + 1) = dec (sint v + 1)"
  by (simp add: to_string_def sint_succ)

section \<open>The envelope around a fragment\<close>

lemma envelope_after_body_tag:
  \<open>after_first ''<SOAP-ENV:Body>\<newline>'' (generateSoapEnvelope body) =
     Some (body @ ''</SOAP-ENV:Body>\<newline></SOAP-ENV:Envelope>'')\<close>
  unfolding generateSoapEnvelope_def
  by (simp add: scan_rules del: scan_defs)

lemma envelope_inject: "generateSoapEnvelope a = generateSoapEnvelope b \<Longrightarrow> a = b"
proof -
  assume "generateSoapEnvelope a = generateSoapEnvelope b"
  then have \<open>after_first ''<SOAP-ENV:Body>\<newline>'' (generateSoapEnvelope a) =
     after_first ''<SOAP-ENV:Body>\<newline>'' (generateSoapEnvelope b)\<close>
    by (rule arg_cong)
  then show "a = b" by (simp only: envelope_after_body_tag option.inject append_same_eq)
qed

lemma envelope_root_tag:
  \<open>\<exists>tag. root_start_tag (generateSoapEnvelope body) = Some tag
      \<and> starts_with ''<SOAP-ENV:Envelope '' tag
      \<and> xmlns_prefixes tag = [''SOAP-ENV'', ''tds'', ''trt'', ''tptz'']\<close>
  unfolding generateSoapEnvelope_def root_start_tag_def
  by (simp add: scan_rules del: scan_defs)

lemma envelope_counts:
  \<open>count_occ ''<SOAP-ENV:Envelope'' (generateSoapEnvelope body) = Suc (count_occ ''<SOAP-ENV:Envelope'' body)\<close>
  \<open>count_occ ''<SOAP-ENV:Body'' (generateSoapEnvelope body) = Suc (count_occ ''<SOAP-ENV:Body'' body)\<close>
  \<open>count_occ ''</SOAP-ENV:Body>'' (generateSoapEnvelope body) = Suc (count_occ ''</SOAP-ENV:Body>'' body)\<close>
  \<open>count_occ ''</SOAP-ENV:Envelope>'' (generateSoapEnvelope body) = Suc (count_occ ''</SOAP-ENV:Envelope>'' body)\<close>
  \<open>count_occ ''<S'' (generateSoapEnvelope body) = 2 + count_occ ''<S'' body\<close>
  \<open>count_occ ''</S'' (generateSoapEnvelope body) = 2 + count_occ ''</S'' body\<close>
  unfolding generateSoapEnvelope_def
  by (simp_all add: scan_rules count_occ_boundary del: scan_defs)

lemma one_envelope_one_body:
  assumes \<open>r = generateSoapEnvelope b\<close> and \<open>count_occ ''<S'' r = 2\<close> and \<open>count_occ ''</S'' r = 2\<close>
  shows \<open>count_occ ''<SOAP-ENV:Envelope'' r = 1 \<and> count_occ ''<SOAP-ENV:Body'' r = 1
       \<and> count_occ ''</SOAP-ENV:Body>'' r = 1 \<and> count_occ ''</SOAP-ENV:Envelope>'' r = 1\<close>
proof -
  from assms have z: \<open>count_occ ''<S'' b = 0\<close> \<open>count_occ ''</S'' b = 0\<close>
    by (simp_all only: envelope_counts)
  have \<open>count_occ (''<S'' @ ''OAP-ENV:Envelope'') b = 0\<close> \<open>count_occ (''<S'' @ ''OAP-ENV:Body'') b = 0\<close>
    \<open>count_occ (''</S'' @ ''OAP-ENV:Body>'') b = 0\<close> \<open>count_occ (''</S'' @ ''OAP-ENV:Envelope>'') b = 0\<close>
    using z by (simp_all only: count_occ_longer_needle)
  then have \<open>count_occ ''<SOAP-ENV:Envelope'' b = 0\<close> \<open>count_occ ''<SOAP-ENV:Body'' b = 0\<close>
    \<open>count_occ ''</SOAP-ENV:Body>'' b = 0\<close> \<open>count_occ ''</SOAP-ENV:Envelope>'' b = 0\<close>
    by (simp_all only: append.simps)
  with assms(1) show ?thesis by (simp only: envelope_counts) simp
qed

text \<open>Every branch of the dispatcher returns an envelope.\<close>

lemma handlers_wrap:
  "\<exists>frag. fst (handleGetDeviceInformation st) = generateSoapEnvelope frag"
  "\<exists>frag. fst (handleGetCapabilities st) = generateSoapEnvelope frag"
  "\<exists>frag. fst (handleGetProfiles st) = generateSoapEnvelope frag"
  "\<exists>frag. fst (handleGetStreamUri st) = generateSoapEnvelope frag"
  "\<exists>frag. fst (handleGetSystemDateAndTime clock st) = generateSoapEnvelope frag"
  "\<exists>frag. fst (handlePTZGetConfigurations st) = generateSoapEnvelope frag"
  unfolding handleGetDeviceInformation_def handleGetCapabilities_def handleGetProfiles_def
    handleGetStreamUri_def handleGetSystemDateAndTime_def handlePTZGetConfigurations_def
    Let_def fst_conv
  by (rule exI, rule refl)+

lemma processRequest_wraps:
  "\<exists>frag. fst (processRequest clock st s) = generateSoapEnvelope frag"
proof (cases "classify s")
  case Unrecognized
  then show ?thesis
    by (simp only: processRequest_classify Operation.case fst_conv) (rule exI, rule refl)
qed (simp_all only: processRequest_classify Operation.case handlers_wrap)

lemma processRequest_same_class:
  assumes "classify a = classify b"
  shows "fst (processRequest clock st a) = fst (processRequest clock' st b)"
proof -
  have "processRequest clock st a = processRequest clock st b"
    by (simp only: processRequest_classify assms)
  then show ?thesis
    by (simp only: processRequest_clock [of clock st b clock'])
qed

section \<open>The envelope tags in each response\<close>

lemma identity_new:
  \<open>manufacturer (OnvifServer_new p) = ''Sample Manufacturer''\<close>
  \<open>model (OnvifServer_new p) = ''Sample Model''\<close>
  \<open>firmware_version (OnvifServer_new p) = ''1.0.0''\<close>
  \<open>serial_number (OnvifServer_new p) = ''123456789''\<close>
  \<open>device_uuid (OnvifServer_new p) = ''urn:uuid:12345678-1234-1234-1234-123456789012''\<close>
  \<open>device_name (OnvifServer_new p) = ''ONVIF Camera''\<close>
  by (simp_all add: OnvifServer_new_def initializeMediaProfiles_def)

lemma plain_GetDeviceInformation:
  \<open>count_occ ''<S'' (fst (handleGetDeviceInformation (OnvifServer_new p))) = 2
   \<and> count_occ ''</S'' (fst (handleGetDeviceInformation (OnvifServer_new p))) = 2\<close>
  by (simp only: handleGetDeviceInformation_def Let_def fst_conv identity_new envelope_counts) (simp add: count_rules del: scan_defs append.simps(2))

lemma plain_GetCapabilities:
  \<open>count_occ ''<S'' (fst (handleGetCapabilities st)) = 2
   \<and> count_occ ''</S'' (fst (handleGetCapabilities st)) = 2\<close>
  by (simp only: handleGetCapabilities_def Let_def fst_conv envelope_counts) (simp add: count_rules del: scan_defs append.simps(2))

lemma plain_GetProfiles:
  \<open>count_occ ''<S'' (fst (handleGetProfiles (OnvifServer_new p))) = 2
   \<and> count_occ ''</S'' (fst (handleGetProfiles (OnvifServer_new p))) = 2\<close>
  by (simp only: handleGetProfiles_def Let_def fst_conv media_profiles_new envelope_counts) (simp add: profile_xml_def count_rules del: scan_defs append.simps(2))

lemma plain_GetStreamUri:
  \<open>count_occ ''<S'' (fst (handleGetStreamUri st)) = 2
   \<and> count_occ ''</S'' (fst (handleGetStreamUri st)) = 2\<close>
  by (simp only: handleGetStreamUri_def Let_def fst_conv envelope_counts) (simp add: count_rules del: scan_defs append.simps(2))

lemma plain_GetSystemDateAndTime:
  \<open>count_occ ''<S'' (fst (handleGetSystemDateAndTime clock st)) = 2
   \<and> count_occ ''</S'' (fst (handleGetSystemDateAndTime clock st)) = 2\<close>
  by (simp only: handleGetSystemDateAndTime_def Let_def fst_conv envelope_counts) (simp add: count_rules del: scan_defs append.simps(2))

lemma plain_PTZGetConfigurations:
  \<open>count_occ ''<S'' (fst (handlePTZGetConfigurations st)) = 2
   \<and> count_occ ''</S'' (fst (handlePTZGetConfigurations st)) = 2\<close>
  by (simp only: handlePTZGetConfigurations_def Let_def fst_conv envelope_counts) (simp add: count_rules del: scan_defs append.simps(2))

lemma fault_counts:
  \<open>count_occ ''<SOAP-ENV:Envelope'' (fst (processRequest clock st [])) = 1
   \<and> count_occ ''<SOAP-ENV:Body'' (fst (processRequest clock st [])) = 1
   \<and> count_occ ''</SOAP-ENV:Body>'' (fst (processRequest clock st [])) = 1
   \<and> count_occ ''</SOAP-ENV:Envelope>'' (fst (processRequest clock st [])) = 1
   \<and> count_occ ''<SOAP-ENV:Fault>'' (fst (processRequest clock st [])) = 1\<close>
  by (simp only: processRequest_classify)
     (simp add: classify_def generateSoapEnvelope_def scan_rules del: scan_defs)

lemma fault_fields:
  \<open>\<exists>fault. xml_path [''SOAP-ENV:Body'', ''SOAP-ENV:Fault''] (fst (processRequest clock st [])) = Some fault
     \<and> xml_path [''SOAP-ENV:Code'', ''SOAP-ENV:Value''] fault = Some ''SOAP-ENV:Receiver''
     \<and> xml_path [''SOAP-ENV:Reason'', ''SOAP-ENV:Text''] fault = Some ''Method not implemented''\<close>
  by (simp only: processRequest_classify)
     (simp add: classify_def generateSoapEnvelope_def element_text_def scan_rules del: scan_defs)

section \<open>The envelope\<close>

text \<open>
  C6. For every fragment, \<^const>\<open>generateSoapEnvelope\<close> returns the XML declaration, then
  the start tag of the Envelope root, which declares the four prefixes SOAP-ENV, tds, trt
  and tptz and no other, then one Body element that holds the fragment as it was given,
  then the end of the root: it adds exactly one Envelope tag and one Body tag to those of
  the fragment. Every response of the dispatcher, the Fault included, is such an envelope
  and has exactly one Envelope element and one Body element.
\<close>

theorem envelope_wraps_fragment:
  \<open>starts_with ''<?xml version="1.0" encoding="UTF-8"?>\<newline><SOAP-ENV:Envelope ''
      (generateSoapEnvelope body)
   \<and> (\<exists>tag. root_start_tag (generateSoapEnvelope body) = Some tag
         \<and> starts_with ''<SOAP-ENV:Envelope '' tag
         \<and> xmlns_prefixes tag = [''SOAP-ENV'', ''tds'', ''trt'', ''tptz''])
   \<and> after_first ''<SOAP-ENV:Body>\<newline>'' (generateSoapEnvelope body) =
       Some (body @ ''</SOAP-ENV:Body>\<newline></SOAP-ENV:Envelope>'')
   \<and> count_occ ''<SOAP-ENV:Envelope'' (generateSoapEnvelope body) =
       Suc (count_occ ''<SOAP-ENV:Envelope'' body)
   \<and> count_occ ''<SOAP-ENV:Body'' (generateSoapEnvelope body) =
       Suc (count_occ ''<SOAP-ENV:Body'' body)
   \<and> (reachable p st \<longrightarrow>
        (\<exists>frag. fst (processRequest clock st s) = generateSoapEnvelope frag)
        \<and> count_occ ''<SOAP-ENV:Envelope'' (fst (processRequest clock st s)) = 1
        \<and> count_occ ''<SOAP-ENV:Body'' (fst (processRequest clock st s)) = 1
        \<and> count_occ ''</SOAP-ENV:Body>'' (fst (processRequest clock st s)) = 1
        \<and> count_occ ''</SOAP-ENV:Envelope>'' (fst (processRequest clock st s)) = 1)\<close>
proof -
  have decl: \<open>starts_with ''<?xml version="1.0" encoding="UTF-8"?>\<newline><SOAP-ENV:Envelope ''
      (generateSoapEnvelope body)\<close>
    unfolding generateSoapEnvelope_def by simp
  have counts: \<open>count_occ ''<SOAP-ENV:Envelope'' (fst (processRequest clock st s)) = 1
        \<and> count_occ ''<SOAP-ENV:Body'' (fst (processRequest clock st s)) = 1
        \<and> count_occ ''</SOAP-ENV:Body>'' (fst (processRequest clock st s)) = 1
        \<and> count_occ ''</SOAP-ENV:Envelope>'' (fst (processRequest clock st s)) = 1\<close>
    if st: "st = OnvifServer_new p" for st
  proof -
    obtain frag where frag: "fst (processRequest clock st s) = generateSoapEnvelope frag"
      using processRequest_wraps by blast
    show ?thesis
    proof (cases "classify s")
      case GetDeviceInformation
      with plain_GetDeviceInformation [of p] st
      have \<open>count_occ ''<S'' (fst (processRequest clock st s)) = 2
          \<and> count_occ ''</S'' (fst (processRequest clock st s)) = 2\<close>
        by (simp only: processRequest_classify Operation.case)
      with frag show ?thesis by (simp only: one_envelope_one_body)
    next
      case GetCapabilities
      with plain_GetCapabilities [of st]
      have \<open>count_occ ''<S'' (fst (processRequest clock st s)) = 2
          \<and> count_occ ''</S'' (fst (processRequest clock st s)) = 2\<close>
        by (simp only: processRequest_classify Operation.case)
      with frag show ?thesis by (simp only: one_envelope_one_body)
    next
      case GetProfiles
      with plain_GetProfiles [of p] st
      have \<open>count_occ ''<S'' (fst (processRequest clock st s)) = 2
          \<and> count_occ ''</S'' (fst (processRequest clock st s)) = 2\<close>
        by (simp only: processRequest_classify Operation.case)
      with frag show ?thesis by (simp only: one_envelope_one_body)
    next
      case GetStreamUri
      with plain_GetStreamUri [of st]
      have \<open>count_occ ''<S'' (fst (processRequest clock st s)) = 2
          \<and> count_occ ''</S'' (fst (processRequest clock st s)) = 2\<close>
        by (simp only: processRequest_classify Operation.case)
      with frag show ?thesis by (simp only: one_envelope_one_body)
    next
      case GetSystemDateAndTime
      with plain_GetSystemDateAndTime [of clock st]
      have \<open>count_occ ''<S'' (fst (processRequest clock st s)) = 2
          \<and> count_occ ''</S'' (fst (processRequest clock st s)) = 2\<close>
        by (simp only: processRequest_classify Operation.case)
      with frag show ?thesis by (simp only: one_envelope_one_body)
    next
      case PTZGetConfigurations
      with plain_PTZGetConfigurations [of st]
      have \<open>count_occ ''<S'' (fst (processRequest clock st s)) = 2
          \<and> count_occ ''</S'' (fst (processRequest clock st s)) = 2\<close>
        by (simp only: processRequest_classify Operation.case)
      with frag show ?thesis by (simp only: one_envelope_one_body)
    next
      case Unrecognized
      then have "classify s = classify []" by (simp add: classify_def)
      then have "fst (processRequest clock st s) = fst (processRequest clock st [])"
        by (rule processRequest_same_class)
      with fault_counts [of clock st] show ?thesis by (simp only: simp_thms)
    qed
  qed
  have reach: \<open>count_occ ''<SOAP-ENV:Envelope'' (fst (processRequest clock st s)) = 1
        \<and> count_occ ''<SOAP-ENV:Body'' (fst (processRequest clock st s)) = 1
        \<and> count_occ ''</SOAP-ENV:Body>'' (fst (processRequest clock st s)) = 1
        \<and> count_occ ''</SOAP-ENV:Envelope>'' (fst (processRequest clock st s)) = 1\<close>
    if "reachable p st"
    using counts [OF refl] by (simp only: reachable_response [OF that])
  from decl envelope_root_tag [of body] envelope_after_body_tag [of body]
    envelope_counts(1,2) [of body] reach processRequest_wraps [of clock st s]
  show ?thesis by blast
qed

theorem envelope_wraps_fragment_witness:
  \<open>reachable 8080 (snd (start True (OnvifServer_new 8080)))
   \<and> count_occ ''<SOAP-ENV:Envelope''
        (fst (processRequest ''2026-10-30T08:15:42Z'' (snd (start True (OnvifServer_new 8080)))
           ''<tds:GetCapabilities/>'')) = 1
   \<and> count_occ ''<SOAP-ENV:Body''
        (fst (processRequest ''2026-10-30T08:15:42Z'' (snd (start True (OnvifServer_new 8080)))
           ''<tds:GetCapabilities/>'')) = 1\<close>
proof -
  have r: "reachable 8080 (snd (start True (OnvifServer_new 8080)))"
    by (rule reachable_start [OF reachable_new])
  from r envelope_wraps_fragment
    [of "[]" 8080 "snd (start True (OnvifServer_new 8080))" \<open>''2026-10-30T08:15:42Z''\<close>
      \<open>''<tds:GetCapabilities/>''\<close>]
  show ?thesis by blast
qed

section \<open>Unrecognized requests\<close>

text \<open>
  C2. \<^const>\<open>processRequest\<close> has no failing branch: for every request, the empty one
  and those that name no operation included, it returns a text, and that text is an
  envelope. When none of the six names occurs in the request, the envelope holds one
  Fault whose Code value is SOAP-ENV:Receiver and whose Reason text is
  "Method not implemented".
\<close>

theorem unrecognized_gives_fault:
  \<open>(\<exists>frag. fst (processRequest clock st s) = generateSoapEnvelope frag)
   \<and> (\<not> occurs_in ''GetDeviceInformation'' s \<and> \<not> occurs_in ''GetCapabilities'' s \<and>
      \<not> occurs_in ''GetProfiles'' s \<and> \<not> occurs_in ''GetStreamUri'' s \<and>
      \<not> occurs_in ''GetSystemDateAndTime'' s \<and> \<not> occurs_in ''GetConfigurations'' s
      \<longrightarrow> (\<exists>fault. xml_path [''SOAP-ENV:Body'', ''SOAP-ENV:Fault'']
                   (fst (processRequest clock st s)) = Some fault
             \<and> xml_path [''SOAP-ENV:Code'', ''SOAP-ENV:Value''] fault = Some ''SOAP-ENV:Receiver''
             \<and> xml_path [''SOAP-ENV:Reason'', ''SOAP-ENV:Text''] fault = Some ''Method not implemented'')
          \<and> count_occ ''<SOAP-ENV:Fault>'' (fst (processRequest clock st s)) = 1)
   \<and> (\<exists>fault. xml_path [''SOAP-ENV:Body'', ''SOAP-ENV:Fault'']
                (fst (processRequest clock st [])) = Some fault
          \<and> xml_path [''SOAP-ENV:Code'', ''SOAP-ENV:Value''] fault = Some ''SOAP-ENV:Receiver''
          \<and> xml_path [''SOAP-ENV:Reason'', ''SOAP-ENV:Text''] fault = Some ''Method not implemented'')\<close>
proof -
  have fault: \<open>(\<exists>fault. xml_path [''SOAP-ENV:Body'', ''SOAP-ENV:Fault'']
                   (fst (processRequest clock st s)) = Some fault
             \<and> xml_path [''SOAP-ENV:Code'', ''SOAP-ENV:Value''] fault = Some ''SOAP-ENV:Receiver''
             \<and> xml_path [''SOAP-ENV:Reason'', ''SOAP-ENV:Text''] fault = Some ''Method not implemented'')
          \<and> count_occ ''<SOAP-ENV:Fault>'' (fst (processRequest clock st s)) = 1\<close>
    if none: \<open>\<not> occurs_in ''GetDeviceInformation'' s \<and> \<not> occurs_in ''GetCapabilities'' s \<and>
      \<not> occurs_in ''GetProfiles'' s \<and> \<not> occurs_in ''GetStreamUri'' s \<and>
      \<not> occurs_in ''GetSystemDateAndTime'' s \<and> \<not> occurs_in ''GetConfigurations'' s\<close>
  proof -
    from none have "classify s = Unrecognized"
      unfolding str_find_None_iff [symmetric] by (simp add: classify_def)
    then have "classify s = classify []" by (simp add: classify_def)
    then have "fst (processRequest clock st s) = fst (processRequest clock st [])"
      by (rule processRequest_same_class)
    with fault_fields [of clock st] fault_counts [of clock st] show ?thesis
      by (simp only: simp_thms)
  qed
  from processRequest_wraps [of clock st s] fault fault_fields [of clock st]
  show ?thesis by blast
qed

theorem unrecognized_gives_fault_witness:
  \<open>\<not> occurs_in ''GetDeviceInformation'' ''POST /onvif HTTP/1.1''
   \<and> \<not> occurs_in ''GetCapabilities'' ''POST /onvif HTTP/1.1''
   \<and> \<not> occurs_in ''GetProfiles'' ''POST /onvif HTTP/1.1''
   \<and> \<not> occurs_in ''GetStreamUri'' ''POST /onvif HTTP/1.1''
   \<and> \<not> occurs_in ''GetSystemDateAndTime'' ''POST /onvif HTTP/1.1''
   \<and> \<not> occurs_in ''GetConfigurations'' ''POST /onvif HTTP/1.1''
   \<and> count_occ ''<SOAP-ENV:Fault>''
        (fst (processRequest ''2026-10-30T08:15:42Z'' (OnvifServer_new 8080) ''POST /onvif HTTP/1.1'')) = 1
   \<and> (\<exists>fault. xml_path [''SOAP-ENV:Body'', ''SOAP-ENV:Fault'']
          (fst (processRequest ''2026-10-30T08:15:42Z'' (OnvifServer_new 8080) ''POST /onvif HTTP/1.1''))
            = Some fault
        \<and> xml_path [''SOAP-ENV:Code'', ''SOAP-ENV:Value''] fault = Some ''SOAP-ENV:Receiver''
        \<and> xml_path [''SOAP-ENV:Reason'', ''SOAP-ENV:Text''] fault = Some ''Method not implemented'')\<close>
proof -
  have n: \<open>\<not> occurs_in ''GetDeviceInformation'' ''POST /onvif HTTP/1.1''\<close>
    \<open>\<not> occurs_in ''GetCapabilities'' ''POST /onvif HTTP/1.1''\<close>
    \<open>\<not> occurs_in ''GetProfiles'' ''POST /onvif HTTP/1.1''\<close>
    \<open>\<not> occurs_in ''GetStreamUri'' ''POST /onvif HTTP/1.1''\<close>
    \<open>\<not> occurs_in ''GetSystemDateAndTime'' ''POST /onvif HTTP/1.1''\<close>
    \<open>\<not> occurs_in ''GetConfigurations'' ''POST /onvif HTTP/1.1''\<close>
    unfolding str_find_None_iff [symmetric] by simp_all
  from n unrecognized_gives_fault
    [of \<open>''2026-10-30T08:15:42Z''\<close> "OnvifServer_new 8080" \<open>''POST /onvif HTTP/1.1''\<close>]
  show ?thesis by blast
qed

section \<open>The system time\<close>

lemma system_time_fields:
  \<open>\<exists>sdt utc. xml_path [''SOAP-ENV:Body'', ''tds:GetSystemDateAndTimeResponse'', ''tds:SystemDateAndTime'']
         (fst (handleGetSystemDateAndTime clock st)) = Some sdt
     \<and> element_text ''tds:DateTimeType'' sdt = Some ''Manual''
     \<and> element_text ''tds:DaylightSavings'' sdt = Some ''false''
     \<and> xml_path [''tds:TimeZone'', ''tds:TZ''] sdt = Some ''UTC''
     \<and> element_text ''tds:UTCDateTime'' sdt = Some utc
     \<and> xml_path [''tds:Time'', ''tds:Hour''] utc = Some ''12''
     \<and> xml_path [''tds:Time'', ''tds:Minute''] utc = Some ''0''
     \<and> xml_path [''tds:Time'', ''tds:Second''] utc = Some ''0''
     \<and> xml_path [''tds:Date'', ''tds:Year''] utc = Some ''2024''
     \<and> xml_path [''tds:Date'', ''tds:Month''] utc = Some ''1''
     \<and> xml_path [''tds:Date'', ''tds:Day''] utc = Some ''1''\<close>
  by (simp only: handleGetSystemDateAndTime_def Let_def fst_conv)
     (simp add: generateSoapEnvelope_def element_text_def scan_rules del: scan_defs)

lemma handleGetSystemDateAndTime_constant:
  "fst (handleGetSystemDateAndTime clock st) = fst (handleGetSystemDateAndTime clock' st')"
  by (simp only: handleGetSystemDateAndTime_def Let_def fst_conv)

text \<open>
  C3. A GetSystemDateAndTime request is answered with the fixed time 12:00:00 on
  2024-01-01, with DateTimeType Manual, DaylightSavings false and time zone UTC. The
  answer does not depend on the clock: \<^const>\<open>handleGetSystemDateAndTime\<close> reads the
  current time with \<^const>\<open>getCurrentTime\<close> and does not use it.
\<close>

theorem system_time_is_fixed:
  assumes "classify s = GetSystemDateAndTime"
  shows \<open>(\<exists>sdt utc. xml_path [''SOAP-ENV:Body'', ''tds:GetSystemDateAndTimeResponse'', ''tds:SystemDateAndTime'']
             (fst (processRequest clock st s)) = Some sdt
         \<and> element_text ''tds:DateTimeType'' sdt = Some ''Manual''
         \<and> element_text ''tds:DaylightSavings'' sdt = Some ''false''
         \<and> xml_path [''tds:TimeZone'', ''tds:TZ''] sdt = Some ''UTC''
         \<and> element_text ''tds:UTCDateTime'' sdt = Some utc
         \<and> xml_path [''tds:Time'', ''tds:Hour''] utc = Some ''12''
         \<and> xml_path [''tds:Time'', ''tds:Minute''] utc = Some ''0''
         \<and> xml_path [''tds:Time'', ''tds:Second''] utc = Some ''0''
         \<and> xml_path [''tds:Date'', ''tds:Year''] utc = Some ''2024''
         \<and> xml_path [''tds:Date'', ''tds:Month''] utc = Some ''1''
         \<and> xml_path [''tds:Date'', ''tds:Day''] utc = Some ''1'')
       \<and> fst (processRequest clock' st' s) = fst (processRequest clock st s)\<close>
proof -
  from assms have a: "fst (processRequest clock st s) = fst (handleGetSystemDateAndTime clock st)"
    by (simp only: processRequest_classify Operation.case)
  from assms have b: "fst (processRequest clock' st' s) = fst (handleGetSystemDateAndTime clock' st')"
    by (simp only: processRequest_classify Operation.case)
  from a b handleGetSystemDateAndTime_constant [of clock st clock' st']
  have c: "fst (processRequest clock' st' s) = fst (processRequest clock st s)"
    by (simp only:)
  from system_time_fields [of clock st] a c show ?thesis by (simp only: simp_thms)
qed

theorem system_time_is_fixed_witness:
  \<open>classify ''<tds:GetSystemDateAndTime/>'' = GetSystemDateAndTime
   \<and> fst (processRequest ''2031-07-04T23:59:59Z'' (OnvifServer_new 554) ''<tds:GetSystemDateAndTime/>'')
     = fst (processRequest ''2026-10-30T08:15:42Z'' (OnvifServer_new 8080) ''<tds:GetSystemDateAndTime/>'')\<close>
proof -
  have c: \<open>classify ''<tds:GetSystemDateAndTime/>'' = GetSystemDateAndTime\<close>
    by (simp add: classify_def)
  from c system_time_is_fixed [OF c, of \<open>''2026-10-30T08:15:42Z''\<close> "OnvifServer_new 8080"
      \<open>''2031-07-04T23:59:59Z''\<close> "OnvifServer_new 554"]
  show ?thesis by blast
qed

section \<open>The stream address\<close>

lemma stream_uri_fields:
  \<open>\<exists>mu. xml_path [''SOAP-ENV:Body'', ''trt:GetStreamUriResponse'', ''trt:MediaUri'']
         (fst (handleGetStreamUri st)) = Some mu
     \<and> element_text ''trt:Uri'' mu = Some (''rtsp://localhost:'' @ to_string (port st + 1) @ ''/stream1'')
     \<and> element_text ''trt:InvalidAfterConnect'' mu = Some ''false''
     \<and> element_text ''trt:InvalidAfterReboot'' mu = Some ''false''
     \<and> element_text ''trt:Timeout'' mu = Some ''PT60S''\<close>
  by (simp only: handleGetStreamUri_def Let_def fst_conv) (simp add: generateSoapEnvelope_def element_text_def scan_rules del: scan_defs)

lemma stream_uri_single:
  \<open>count_occ ''<trt:MediaUri>'' (fst (handleGetStreamUri st)) = 1
   \<and> count_occ ''<trt:Uri>'' (fst (handleGetStreamUri st)) = 1\<close>
  by (simp only: handleGetStreamUri_def Let_def fst_conv) (simp add: generateSoapEnvelope_def scan_rules del: scan_defs)

lemma stream_uri_element:
  \<open>element_text ''trt:Uri'' (fst (handleGetStreamUri st)) =
     Some (''rtsp://localhost:'' @ to_string (port st + 1) @ ''/stream1'')\<close>
  by (simp only: handleGetStreamUri_def Let_def fst_conv)
     (simp add: generateSoapEnvelope_def element_text_def scan_rules del: scan_defs)

text \<open>
  C5. A GetStreamUri request is answered with a single MediaUri whose Uri is
  \<open>rtsp://localhost:<port + 1>/stream1\<close>, with InvalidAfterConnect false,
  InvalidAfterReboot false and Timeout PT60S. Between \<open>rtsp://localhost:\<close> and
  \<open>/stream1\<close> stands the decimal numeral of the port plus one, for every port below
  the largest \<^verbatim>\<open>int\<close>, so for every TCP port. With port 8080 the Uri is
  \<open>rtsp://localhost:8081/stream1\<close>.
\<close>

theorem stream_uri_is_next_port:
  assumes "classify s = GetStreamUri"
  shows \<open>(\<exists>mu d. xml_path [''SOAP-ENV:Body'', ''trt:GetStreamUriResponse'', ''trt:MediaUri'']
             (fst (processRequest clock st s)) = Some mu
         \<and> element_text ''trt:Uri'' mu = Some (''rtsp://localhost:'' @ d @ ''/stream1'')
         \<and> (sint (port st) < 2147483647 \<longrightarrow> denotes d (sint (port st) + 1))
         \<and> element_text ''trt:InvalidAfterConnect'' mu = Some ''false''
         \<and> element_text ''trt:InvalidAfterReboot'' mu = Some ''false''
         \<and> element_text ''trt:Timeout'' mu = Some ''PT60S'')
       \<and> count_occ ''<trt:MediaUri>'' (fst (processRequest clock st s)) = 1
       \<and> count_occ ''<trt:Uri>'' (fst (processRequest clock st s)) = 1
       \<and> (0 \<le> sint (port st) \<and> sint (port st) \<le> 65535 \<longrightarrow>
            (\<exists>d. element_text ''trt:Uri'' (fst (processRequest clock st s)) =
                   Some (''rtsp://localhost:'' @ d @ ''/stream1'')
               \<and> denotes d (sint (port st) + 1)))
       \<and> (port st = 8080 \<longrightarrow>
            element_text ''trt:Uri'' (fst (processRequest clock st s)) =
              Some ''rtsp://localhost:8081/stream1'')\<close>
proof -
  from assms have r: "fst (processRequest clock st s) = fst (handleGetStreamUri st)"
    by (simp only: processRequest_classify Operation.case)
  have den: "denotes (to_string (port st + 1)) (sint (port st) + 1)"
    if "sint (port st) < 2147483647"
    using to_string_denotes [of "port st + 1"] by (simp only: sint_succ [OF that])
  from stream_uri_fields [of st] den
  have fields: \<open>\<exists>mu d. xml_path [''SOAP-ENV:Body'', ''trt:GetStreamUriResponse'', ''trt:MediaUri'']
             (fst (handleGetStreamUri st)) = Some mu
         \<and> element_text ''trt:Uri'' mu = Some (''rtsp://localhost:'' @ d @ ''/stream1'')
         \<and> (sint (port st) < 2147483647 \<longrightarrow> denotes d (sint (port st) + 1))
         \<and> element_text ''trt:InvalidAfterConnect'' mu = Some ''false''
         \<and> element_text ''trt:InvalidAfterReboot'' mu = Some ''false''
         \<and> element_text ''trt:Timeout'' mu = Some ''PT60S''\<close>
    by blast
  have tcp: \<open>0 \<le> sint (port st) \<and> sint (port st) \<le> 65535 \<longrightarrow>
            (\<exists>d. element_text ''trt:Uri'' (fst (handleGetStreamUri st)) =
                   Some (''rtsp://localhost:'' @ d @ ''/stream1'')
               \<and> denotes d (sint (port st) + 1))\<close>
  proof
    assume "0 \<le> sint (port st) \<and> sint (port st) \<le> 65535"
    then have "sint (port st) < 2147483647" by simp
    then have "denotes (to_string (port st + 1)) (sint (port st) + 1)" by (rule den)
    with stream_uri_element [of st]
    show \<open>\<exists>d. element_text ''trt:Uri'' (fst (handleGetStreamUri st)) =
                   Some (''rtsp://localhost:'' @ d @ ''/stream1'')
               \<and> denotes d (sint (port st) + 1)\<close>
      by blast
  qed
  have \<open>to_string (8080 + 1) = ''8081''\<close>
    by (simp add: to_string_def dec_def digits.simps)
  with stream_uri_element [of st]
  have p8080: \<open>port st = 8080 \<longrightarrow>
            element_text ''trt:Uri'' (fst (handleGetStreamUri st)) = Some ''rtsp://localhost:8081/stream1''\<close>
    by simp
  from fields stream_uri_single [of st] tcp p8080 show ?thesis
    unfolding r by (simp only: simp_thms)
qed

theorem stream_uri_is_next_port_witness:
  \<open>classify ''<trt:GetStreamUri/>'' = GetStreamUri
   \<and> port (OnvifServer_new 8080) = 8080
   \<and> element_text ''trt:Uri''
        (fst (processRequest ''2026-10-30T08:15:42Z'' (OnvifServer_new 8080) ''<trt:GetStreamUri/>''))
      = Some ''rtsp://localhost:8081/stream1''
   \<and> (0::int) \<le> sint (port (OnvifServer_new 554)) \<and> sint (port (OnvifServer_new 554)) \<le> 65535
   \<and> (\<exists>d. element_text ''trt:Uri''
          (fst (processRequest ''2026-10-30T08:15:42Z'' (OnvifServer_new 554) ''<trt:GetStreamUri/>''))
          = Some (''rtsp://localhost:'' @ d @ ''/stream1'')
        \<and> denotes d 555)\<close>
proof -
  have c: \<open>classify ''<trt:GetStreamUri/>'' = GetStreamUri\<close>
    by (simp add: classify_def)
  have p: "port (OnvifServer_new 8080) = 8080" by (rule port_new)
  have q: "(0::int) \<le> sint (port (OnvifServer_new 554))" "sint (port (OnvifServer_new 554)) \<le> 65535"
    "sint (port (OnvifServer_new 554)) + 1 = 555"
    by (simp_all add: port_new)
  from c p q stream_uri_is_next_port [OF c, of \<open>''2026-10-30T08:15:42Z''\<close> "OnvifServer_new 8080"]
    stream_uri_is_next_port [OF c, of \<open>''2026-10-30T08:15:42Z''\<close> "OnvifServer_new 554"]
  show ?thesis by (simp only: simp_thms)
qed

section \<open>The profiles of a GetProfiles response\<close>

lemma handleGetProfiles_loop_concat:
  "handleGetProfiles_loop ps acc = acc @ concat (map profile_xml ps)"
  by (induction ps arbitrary: acc) simp_all

lemma profiles_tokens_skip: "c \<noteq> CHR ''<'' \<Longrightarrow> profiles_tokens (c # s) = profiles_tokens s"
  by simp

lemma profiles_tokens_hit:
  \<open>starts_with ''trt:Profiles token="'' s \<Longrightarrow>
   profiles_tokens (CHR ''<'' # s) = takeWhile (\<lambda>x. x \<noteq> CHR 0x22) (drop 20 s) # profiles_tokens s\<close>
  by simp

lemma profiles_tokens_miss:
  \<open>\<not> starts_with ''trt:Profiles token="'' s \<Longrightarrow> profiles_tokens (CHR ''<'' # s) = profiles_tokens s\<close>
  by simp

lemma profiles_tokens_no_lt: "CHR ''<'' \<notin> set d \<Longrightarrow> profiles_tokens (d @ r) = profiles_tokens r"
  by (induction d) auto

lemma takeWhile_to_quote:
  "CHR 0x22 \<notin> set d \<Longrightarrow> takeWhile (\<lambda>x. x \<noteq> CHR 0x22) (d @ CHR 0x22 # r) = d"
  by (induction d) auto

lemmas token_rules =
  profiles_tokens_skip profiles_tokens_hit profiles_tokens_miss
  profiles_tokens_no_lt takeWhile_to_quote to_string_no_lt

lemma profiles_tokens_profile_xml:
  assumes "CHR ''<'' \<notin> set (token m)" "CHR 0x22 \<notin> set (token m)"
    "CHR ''<'' \<notin> set (name m)" "CHR ''<'' \<notin> set (video_encoder_token m)"
  shows "profiles_tokens (profile_xml m @ rest) = token m # profiles_tokens rest"
  using assms unfolding profile_xml_def
  by (simp add: token_rules del: profiles_tokens.simps(2))

lemma profiles_tokens_concat:
  assumes "\<forall>m \<in> set ps. CHR ''<'' \<notin> set (token m) \<and> CHR 0x22 \<notin> set (token m) \<and>
             CHR ''<'' \<notin> set (name m) \<and> CHR ''<'' \<notin> set (video_encoder_token m)"
  shows "profiles_tokens (concat (map profile_xml ps) @ rest) = map token ps @ profiles_tokens rest"
  using assms by (induction ps) (simp_all add: profiles_tokens_profile_xml del: profiles_tokens.simps(2))

lemma profiles_tokens_response:
  assumes "\<forall>m \<in> set (media_profiles st). CHR ''<'' \<notin> set (token m) \<and> CHR 0x22 \<notin> set (token m) \<and>
             CHR ''<'' \<notin> set (name m) \<and> CHR ''<'' \<notin> set (video_encoder_token m)"
  shows "profiles_tokens (fst (handleGetProfiles st)) = map token (media_profiles st)"
proof -
  have pre: \<open>profiles_tokens (generateSoapEnvelope (''<trt:GetProfilesResponse>\<newline>'' @ x @ ''</trt:GetProfilesResponse>''))
      = profiles_tokens (x @ ''</trt:GetProfilesResponse>'' @ ''</SOAP-ENV:Body>\<newline></SOAP-ENV:Envelope>'')\<close> for x
    unfolding generateSoapEnvelope_def
    by (simp add: token_rules del: profiles_tokens.simps(2))
  have post: \<open>profiles_tokens (''</trt:GetProfilesResponse>'' @ ''</SOAP-ENV:Body>\<newline></SOAP-ENV:Envelope>'') = []\<close>
    by (simp add: token_rules del: profiles_tokens.simps(2))
  show ?thesis
    unfolding handleGetProfiles_def Let_def fst_conv pre handleGetProfiles_loop_concat append_Nil
    using profiles_tokens_concat [OF assms] post by (simp only: append_Nil2)
qed

lemma count_start_profile_xml:
  assumes "CHR ''<'' \<notin> set (token m)" "CHR ''<'' \<notin> set (name m)"
    "CHR ''<'' \<notin> set (video_encoder_token m)"
  shows \<open>count_occ ''<trt:Profiles '' (profile_xml m @ rest) = Suc (count_occ ''<trt:Profiles '' rest)\<close>
  using assms unfolding profile_xml_def
  by (simp add: scan_rules del: scan_defs)

lemma count_end_profile_xml:
  assumes "CHR ''<'' \<notin> set (token m)" "CHR ''<'' \<notin> set (name m)"
    "CHR ''<'' \<notin> set (video_encoder_token m)"
  shows \<open>count_occ ''</trt:Profiles>'' (profile_xml m @ rest) = Suc (count_occ ''</trt:Profiles>'' rest)\<close>
  using assms unfolding profile_xml_def
  by (simp add: scan_rules del: scan_defs)

lemma count_profiles_concat:
  assumes "\<forall>m \<in> set ps. CHR ''<'' \<notin> set (token m) \<and> CHR 0x22 \<notin> set (token m) \<and>
             CHR ''<'' \<notin> set (name m) \<and> CHR ''<'' \<notin> set (video_encoder_token m)"
  shows \<open>count_occ ''<trt:Profiles '' (concat (map profile_xml ps) @ rest) =
           length ps + count_occ ''<trt:Profiles '' rest\<close>
    and \<open>count_occ ''</trt:Profiles>'' (concat (map profile_xml ps) @ rest) =
           length ps + count_occ ''</trt:Profiles>'' rest\<close>
  using assms
  by (induction ps) (simp_all add: count_start_profile_xml count_end_profile_xml del: scan_defs)

lemma count_profiles_response:
  assumes "\<forall>m \<in> set (media_profiles st). CHR ''<'' \<notin> set (token m) \<and> CHR 0x22 \<notin> set (token m) \<and>
             CHR ''<'' \<notin> set (name m) \<and> CHR ''<'' \<notin> set (video_encoder_token m)"
  shows \<open>count_occ ''<trt:Profiles '' (fst (handleGetProfiles st)) = length (media_profiles st)
       \<and> count_occ ''</trt:Profiles>'' (fst (handleGetProfiles st)) = length (media_profiles st)\<close>
proof -
  have pre: \<open>count_occ ''<trt:Profiles '' (generateSoapEnvelope (''<trt:GetProfilesResponse>\<newline>'' @ x @ ''</trt:GetProfilesResponse>''))
      = count_occ ''<trt:Profiles '' (x @ ''</trt:GetProfilesResponse>'' @ ''</SOAP-ENV:Body>\<newline></SOAP-ENV:Envelope>'')\<close>
    \<open>count_occ ''</trt:Profiles>'' (generateSoapEnvelope (''<trt:GetProfilesResponse>\<newline>'' @ x @ ''</trt:GetProfilesResponse>''))
      = count_occ ''</trt:Profiles>'' (x @ ''</trt:GetProfilesResponse>'' @ ''</SOAP-ENV:Body>\<newline></SOAP-ENV:Envelope>'')\<close> for x
    unfolding generateSoapEnvelope_def
    by (simp_all add: scan_rules del: scan_defs)
  have post: \<open>count_occ ''<trt:Profiles '' (''</trt:GetProfilesResponse>'' @ ''</SOAP-ENV:Body>\<newline></SOAP-ENV:Envelope>'') = 0\<close>
    \<open>count_occ ''</trt:Profiles>'' (''</trt:GetProfilesResponse>'' @ ''</SOAP-ENV:Body>\<newline></SOAP-ENV:Envelope>'') = 0\<close>
    by (simp_all add: scan_rules del: scan_defs)
  show ?thesis
    unfolding handleGetProfiles_def Let_def fst_conv pre handleGetProfiles_loop_concat append_Nil
    using count_profiles_concat [OF assms] post by (simp only: add_0_right simp_thms)
qed

lemma profile_xml_element:
  \<open>\<exists>inner. profile_xml m =
     ''<trt:Profiles token="'' @ token m @ ''" fixed="true">\<newline>'' @ inner @ ''</trt:Profiles>\<newline>''\<close>
  unfolding profile_xml_def
  apply (simp only: same_append_eq)
  apply (simp only: append_assoc [symmetric])
  apply (rule exI, rule refl)
  done

lemma handleGetProfiles_blocks:
  \<open>fst (handleGetProfiles st) =
     generateSoapEnvelope (''<trt:GetProfilesResponse>\<newline>'' @
       concat (map profile_xml (media_profiles st)) @ ''</trt:GetProfilesResponse>'')\<close>
  unfolding handleGetProfiles_def Let_def fst_conv handleGetProfiles_loop_concat append_Nil
  by (rule refl)

text \<open>
  C4. A GetProfiles response is the envelope of one block per stored profile, in the
  stored order, and every block is a Profiles element: it opens with a start tag whose
  token attribute is the token of its profile and closes with the Profiles end tag. In
  every state of the server, read as text, the response has exactly as many Profiles
  start tags and end tags as there are stored profiles, and the token attribute of the
  i-th start tag is the token of the i-th stored profile.
\<close>

theorem profiles_follow_store:
  assumes "classify s = GetProfiles"
  shows \<open>fst (processRequest clock st s) =
           generateSoapEnvelope (''<trt:GetProfilesResponse>\<newline>'' @
             concat (map profile_xml (media_profiles st)) @ ''</trt:GetProfilesResponse>'')
       \<and> (\<forall>m. \<exists>inner. profile_xml m =
             ''<trt:Profiles token="'' @ token m @ ''" fixed="true">\<newline>'' @ inner @
             ''</trt:Profiles>\<newline>'')
       \<and> (reachable p st \<longrightarrow>
            profiles_tokens (fst (processRequest clock st s)) = map token (media_profiles st)
            \<and> count_occ ''<trt:Profiles '' (fst (processRequest clock st s)) = length (media_profiles st)
            \<and> count_occ ''</trt:Profiles>'' (fst (processRequest clock st s)) = length (media_profiles st)
            \<and> length (profiles_tokens (fst (processRequest clock st s))) = length (media_profiles st)
            \<and> (\<forall>i < length (media_profiles st).
                 profiles_tokens (fst (processRequest clock st s)) ! i = token (media_profiles st ! i)))\<close>
proof -
  from assms have r: "fst (processRequest clock x s) = fst (handleGetProfiles x)" for x
    by (simp only: processRequest_classify Operation.case)
  have blocks: \<open>fst (processRequest clock st s) =
           generateSoapEnvelope (''<trt:GetProfilesResponse>\<newline>'' @
             concat (map profile_xml (media_profiles st)) @ ''</trt:GetProfilesResponse>'')\<close>
    by (simp only: r handleGetProfiles_blocks)
  have read: \<open>profiles_tokens (fst (processRequest clock st s)) = map token (media_profiles st)
            \<and> count_occ ''<trt:Profiles '' (fst (processRequest clock st s)) = length (media_profiles st)
            \<and> count_occ ''</trt:Profiles>'' (fst (processRequest clock st s)) = length (media_profiles st)
            \<and> length (profiles_tokens (fst (processRequest clock st s))) = length (media_profiles st)
            \<and> (\<forall>i < length (media_profiles st).
                 profiles_tokens (fst (processRequest clock st s)) ! i = token (media_profiles st ! i))\<close>
    if reach: "reachable p st"
  proof -
    have plain: \<open>\<forall>m \<in> set (media_profiles (OnvifServer_new p)).
        CHR ''<'' \<notin> set (token m) \<and> CHR 0x22 \<notin> set (token m) \<and>
        CHR ''<'' \<notin> set (name m) \<and> CHR ''<'' \<notin> set (video_encoder_token m)\<close>
      by (simp add: media_profiles_new)
    have same: "fst (processRequest clock st s) = fst (handleGetProfiles (OnvifServer_new p))"
      by (simp only: reachable_response [OF reach] r)
    have store: "media_profiles st = media_profiles (OnvifServer_new p)"
      using reach by (rule reachable_profiles)
    from profiles_tokens_response [OF plain] count_profiles_response [OF plain]
    have \<open>profiles_tokens (fst (processRequest clock st s)) = map token (media_profiles st)\<close>
      and \<open>count_occ ''<trt:Profiles '' (fst (processRequest clock st s)) = length (media_profiles st)\<close>
      and \<open>count_occ ''</trt:Profiles>'' (fst (processRequest clock st s)) = length (media_profiles st)\<close>
      by (simp_all only: same store)
    then show ?thesis by simp
  qed
  from blocks profile_xml_element read show ?thesis by blast
qed

theorem profiles_follow_store_witness:
  \<open>classify ''<trt:GetProfiles/>'' = GetProfiles
   \<and> reachable 8080 (snd (start True (OnvifServer_new 8080)))
   \<and> profiles_tokens (fst (processRequest ''2026-10-30T08:15:42Z''
        (snd (start True (OnvifServer_new 8080))) ''<trt:GetProfiles/>''))
     = map token (media_profiles (snd (start True (OnvifServer_new 8080))))
   \<and> map token (media_profiles (snd (start True (OnvifServer_new 8080)))) = [''Profile_1'', ''Profile_2'']
   \<and> count_occ ''</trt:Profiles>'' (fst (processRequest ''2026-10-30T08:15:42Z''
        (snd (start True (OnvifServer_new 8080))) ''<trt:GetProfiles/>''))
     = length (media_profiles (snd (start True (OnvifServer_new 8080))))\<close>
proof -
  have c: \<open>classify ''<trt:GetProfiles/>'' = GetProfiles\<close>
    by (simp add: classify_def)
  have r: "reachable 8080 (snd (start True (OnvifServer_new 8080)))"
    by (rule reachable_start [OF reachable_new])
  have m: \<open>map token (media_profiles (snd (start True (OnvifServer_new 8080)))) = [''Profile_1'', ''Profile_2'']\<close>
    by (simp add: start_def media_profiles_new)
  from c r m profiles_follow_store [OF c, of \<open>''2026-10-30T08:15:42Z''\<close>
      "snd (start True (OnvifServer_new 8080))" 8080]
  show ?thesis by blast
qed

section \<open>The responses of the server\<close>

lemma response_kinds:
  \<open>map_option (take 12) (after_first ''<SOAP-ENV:Body>\<newline>'' (fst (handleGetDeviceInformation st))) = Some ''<tds:GetDevi''\<close>
  \<open>map_option (take 12) (after_first ''<SOAP-ENV:Body>\<newline>'' (fst (handleGetCapabilities st))) = Some ''<tds:GetCapa''\<close>
  \<open>map_option (take 12) (after_first ''<SOAP-ENV:Body>\<newline>'' (fst (handleGetProfiles st))) = Some ''<trt:GetProf''\<close>
  \<open>map_option (take 12) (after_first ''<SOAP-ENV:Body>\<newline>'' (fst (handleGetStreamUri st))) = Some ''<trt:GetStre''\<close>
  \<open>map_option (take 12) (after_first ''<SOAP-ENV:Body>\<newline>'' (fst (handleGetSystemDateAndTime clock st))) = Some ''<tds:GetSyst''\<close>
  \<open>map_option (take 12) (after_first ''<SOAP-ENV:Body>\<newline>'' (fst (handlePTZGetConfigurations st))) = Some ''<tptz:GetCon''\<close>
  \<open>map_option (take 12) (after_first ''<SOAP-ENV:Body>\<newline>'' (fst (processRequest clock st []))) = Some ''<SOAP-ENV:Fa''\<close>
  unfolding handleGetDeviceInformation_def handleGetCapabilities_def handleGetProfiles_def
    handleGetStreamUri_def handleGetSystemDateAndTime_def handlePTZGetConfigurations_def
    processRequest_classify Let_def fst_conv envelope_after_body_tag
  by (simp_all add: classify_def envelope_after_body_tag del: append.simps(2))

lemma Operation_UNIV:
  "(UNIV :: Operation set) =
     {GetDeviceInformation, GetCapabilities, GetProfiles, GetStreamUri,
      GetSystemDateAndTime, PTZGetConfigurations, Unrecognized}"
  by (auto intro: Operation.exhaust)

lemma classify_onto:
  \<open>classify ''GetDeviceInformation'' = GetDeviceInformation\<close>
  \<open>classify ''GetCapabilities'' = GetCapabilities\<close>
  \<open>classify ''GetProfiles'' = GetProfiles\<close>
  \<open>classify ''GetStreamUri'' = GetStreamUri\<close>
  \<open>classify ''GetSystemDateAndTime'' = GetSystemDateAndTime\<close>
  \<open>classify ''GetConfigurations'' = PTZGetConfigurations\<close>
  \<open>classify [] = Unrecognized\<close>
  by (simp_all add: classify_def)

text \<open>
  C10. With a fixed port and the default profiles, the server has exactly seven
  responses, one for each of the six operations and the Fault: two requests of the same
  class get the same bytes, at any two times and in any two states of the server, so a
  response carries nothing of the request but its class.
\<close>

theorem seven_responses:
  \<open>card {r. \<exists>clock st s. reachable p st \<and> r = fst (processRequest clock st s)} = 7
   \<and> (reachable p st \<and> reachable p st' \<and> classify s = classify s' \<longrightarrow>
        fst (processRequest clock st s) = fst (processRequest clock' st' s'))\<close>
proof -
  define example :: "Operation \<Rightarrow> string" where
    \<open>example = (\<lambda>op. case op of
        GetDeviceInformation \<Rightarrow> ''GetDeviceInformation''
      | GetCapabilities \<Rightarrow> ''GetCapabilities''
      | GetProfiles \<Rightarrow> ''GetProfiles''
      | GetStreamUri \<Rightarrow> ''GetStreamUri''
      | GetSystemDateAndTime \<Rightarrow> ''GetSystemDateAndTime''
      | PTZGetConfigurations \<Rightarrow> ''GetConfigurations''
      | Unrecognized \<Rightarrow> [])\<close>
  define kind :: "Operation \<Rightarrow> string" where
    \<open>kind = (\<lambda>op. case op of
        GetDeviceInformation \<Rightarrow> ''<tds:GetDevi''
      | GetCapabilities \<Rightarrow> ''<tds:GetCapa''
      | GetProfiles \<Rightarrow> ''<trt:GetProf''
      | GetStreamUri \<Rightarrow> ''<trt:GetStre''
      | GetSystemDateAndTime \<Rightarrow> ''<tds:GetSyst''
      | PTZGetConfigurations \<Rightarrow> ''<tptz:GetCon''
      | Unrecognized \<Rightarrow> ''<SOAP-ENV:Fa'')\<close>
  define resp :: "Operation \<Rightarrow> string" where
    "resp = (\<lambda>op. fst (processRequest [] (OnvifServer_new p) (example op)))"
  have ex: "classify (example op) = op" for op
    by (cases op) (simp_all only: example_def Operation.case classify_onto)
  have resp_class: "fst (processRequest c (OnvifServer_new p) r) = resp (classify r)" for c r
    unfolding resp_def by (rule processRequest_same_class) (simp only: ex)
  have resp_reach: "fst (processRequest c x r) = resp (classify r)" if "reachable p x" for c x r
    by (simp only: reachable_response [OF that] resp_class)
  have img: "{r. \<exists>clock st s. reachable p st \<and> r = fst (processRequest clock st s)} = range resp"
  proof (intro set_eqI iffI)
    fix r
    assume "r \<in> {r. \<exists>clock st s. reachable p st \<and> r = fst (processRequest clock st s)}"
    then obtain c x q where "reachable p x" and "r = fst (processRequest c x q)" by blast
    then have "r = resp (classify q)" by (simp only: resp_reach)
    then show "r \<in> range resp" by blast
  next
    fix r
    assume "r \<in> range resp"
    then obtain op where "r = resp op" by blast
    then have "r = fst (processRequest [] (OnvifServer_new p) (example op))"
      by (simp only: resp_def)
    with reachable_new [of p]
    show "r \<in> {r. \<exists>clock st s. reachable p st \<and> r = fst (processRequest clock st s)}"
      by blast
  qed
  have kind_resp:
    \<open>map_option (take 12) (after_first ''<SOAP-ENV:Body>\<newline>'' (resp op)) = Some (kind op)\<close> for op
  proof (cases op)
    case Unrecognized
    then show ?thesis
      by (simp only: resp_def kind_def example_def Operation.case response_kinds)
  qed (simp_all only: resp_def kind_def processRequest_classify ex Operation.case response_kinds)
  have kind_inj: "kind a = kind b \<Longrightarrow> a = b" for a b
    by (cases a; cases b) (simp_all add: kind_def)
  have "inj resp"
  proof (rule injI)
    fix a b
    assume "resp a = resp b"
    then have \<open>map_option (take 12) (after_first ''<SOAP-ENV:Body>\<newline>'' (resp a)) =
        map_option (take 12) (after_first ''<SOAP-ENV:Body>\<newline>'' (resp b))\<close>
      by (simp only:)
    then have "kind a = kind b" by (simp only: kind_resp option.inject)
    then show "a = b" by (rule kind_inj)
  qed
  then have "card (range resp) = card (UNIV :: Operation set)" by (rule card_image)
  also have "\<dots> = 7" by (simp add: Operation_UNIV)
  finally have seven:
    "card {r. \<exists>clock st s. reachable p st \<and> r = fst (processRequest clock st s)} = 7"
    by (simp only: img)
  have same: \<open>reachable p st \<and> reachable p st' \<and> classify s = classify s' \<longrightarrow>
        fst (processRequest clock st s) = fst (processRequest clock' st' s')\<close>
  proof
    assume a: "reachable p st \<and> reachable p st' \<and> classify s = classify s'"
    then have "fst (processRequest clock st s) = resp (classify s)"
      and "fst (processRequest clock' st' s') = resp (classify s')"
      by (simp_all only: resp_reach)
    with a show "fst (processRequest clock st s) = fst (processRequest clock' st' s')"
      by (simp only:)
  qed
  from seven same show ?thesis by (rule conjI)
qed

theorem seven_responses_witness:
  \<open>reachable 8080 (OnvifServer_new 8080)
   \<and> reachable 8080 (snd (start True (OnvifServer_new 8080)))
   \<and> classify ''POST /media GetProfiles now'' = classify ''<trt:GetProfiles/>''
   \<and> fst (processRequest ''2026-10-30T08:15:42Z'' (OnvifServer_new 8080) ''POST /media GetProfiles now'')
     = fst (processRequest ''2031-07-04T23:59:59Z'' (snd (start True (OnvifServer_new 8080)))
         ''<trt:GetProfiles/>'')\<close>
proof -
  have r0: "reachable 8080 (OnvifServer_new 8080)" by (rule reachable_new)
  then have r1: "reachable 8080 (snd (start True (OnvifServer_new 8080)))"
    by (rule reachable_start)
  have c: \<open>classify ''POST /media GetProfiles now'' = classify ''<trt:GetProfiles/>''\<close>
    by (simp add: classify_def)
  from r0 r1 c seven_responses [of 8080 "OnvifServer_new 8080"
      "snd (start True (OnvifServer_new 8080))"
      \<open>''POST /media GetProfiles now''\<close> \<open>''<trt:GetProfiles/>''\<close>
      \<open>''2026-10-30T08:15:42Z''\<close> \<open>''2031-07-04T23:59:59Z''\<close>]
  show ?thesis by blast
qed

end
